theory Spec2Isabelle
  imports Main "HOL-Library.Log_Nat"
begin

section \<open>Python values used by \<^verbatim>\<open>notion_portfolio_updater.py\<close>\<close>

subsection \<open>Exceptions\<close>

text \<open>
  The exceptions the script can meet. \<^verbatim>\<open>SystemExit\<close> carries the names that
  \<^verbatim>\<open>require_env\<close> joins into its message; \<^verbatim>\<open>Failure\<close> stands for any
  other subclass of \<^verbatim>\<open>Exception\<close> raised by a library (network error, unknown
  symbol, malformed response, rejected update). \<^verbatim>\<open>KeyboardInterrupt\<close> and
  \<^verbatim>\<open>SystemExit\<close> derive from \<^verbatim>\<open>BaseException\<close> only, so
  \<^verbatim>\<open>except Exception\<close> lets them through.
\<close>

datatype exn =
    KeyError | TypeError | AttributeError | ValueError | OverflowError | ZeroDivisionError
  | Failure string
  | KeyboardInterrupt
  | SystemExit "string list"

fun is_Exception :: "exn \<Rightarrow> bool" where
  "is_Exception KeyboardInterrupt = False"
| "is_Exception (SystemExit _) = False"
| "is_Exception _ = True"

subsection \<open>Floats: IEEE 754 binary64\<close>

text \<open>
  A Python \<^verbatim>\<open>float\<close> is a binary64 number: a signed magnitude (a rational, zero
  included, so that \<^verbatim>\<open>-0.0\<close> is \<open>Finite True 0\<close>), a signed infinity, or NaN.
  An arithmetic operation computes the exact rational result and rounds it once to the
  nearest representable magnitude, ties to the even significand (precision 53 bits,
  exponents \<open>-1022 .. 1023\<close>, gradual underflow, overflow to infinity).
\<close>

datatype pyfloat = Finite bool rat | Infinity bool | NaN

definition pow2 :: "int \<Rightarrow> rat" where
  "pow2 e = (if 0 \<le> e then 2 ^ nat e else 1 / 2 ^ nat (- e))"

text \<open>\<open>ilog2 m\<close> is the binary exponent of a positive rational: \<open>2 ^ ilog2 m \<le> m < 2 ^ (ilog2 m + 1)\<close>.\<close>

definition ilog2 :: "rat \<Rightarrow> int" where
  "ilog2 m = (case quotient_of m of (a, b) \<Rightarrow>
     let d = bitlen a - bitlen b
     in if pow2 d \<le> m then d else d - 1)"

text \<open>Rounding a rational to the nearest integer, ties to even.\<close>

definition rne :: "rat \<Rightarrow> int" where
  "rne x = (let f = \<lfloor>x\<rfloor>; d = x - of_int f in
            if d < 1 / 2 then f
            else if 1 / 2 < d then f + 1
            else if even f then f else f + 1)"

text \<open>
  \<open>round64 s m\<close> rounds the exact magnitude \<open>m \<ge> 0\<close> of a result of sign \<open>s\<close>. The unit
  in the last place is \<open>2 ^ (e - 52)\<close> for the exponent \<open>e\<close> of \<open>m\<close>, and never below
  \<open>2 ^ -1074\<close>; a rounded magnitude whose exponent exceeds 1023 overflows.
\<close>

definition round64 :: "bool \<Rightarrow> rat \<Rightarrow> pyfloat" where
  "round64 s m =
     (if m = 0 then Finite s 0
      else let e = max (ilog2 m) (- 1022);
               ulp = pow2 (e - 52);
               r = of_int (rne (m / ulp)) * ulp
           in if r \<noteq> 0 \<and> 1023 < ilog2 r then Infinity s else Finite s r)"

definition fval :: "bool \<Rightarrow> rat \<Rightarrow> rat" where
  "fval s m = (if s then - m else m)"

text \<open>\<^verbatim>\<open>x * y\<close> on floats.\<close>

fun float_mul :: "pyfloat \<Rightarrow> pyfloat \<Rightarrow> pyfloat" where
  "float_mul NaN y = NaN"
| "float_mul x NaN = NaN"
| "float_mul (Infinity s) (Infinity t) = Infinity (s \<noteq> t)"
| "float_mul (Infinity s) (Finite t n) = (if n = 0 then NaN else Infinity (s \<noteq> t))"
| "float_mul (Finite s m) (Infinity t) = (if m = 0 then NaN else Infinity (s \<noteq> t))"
| "float_mul (Finite s m) (Finite t n) = round64 (s \<noteq> t) (m * n)"

text \<open>\<^verbatim>\<open>x - y\<close> on floats. An exact zero difference is \<^verbatim>\<open>+0.0\<close>, except \<^verbatim>\<open>-0.0 - 0.0\<close>.\<close>

fun float_sub :: "pyfloat \<Rightarrow> pyfloat \<Rightarrow> pyfloat" where
  "float_sub NaN y = NaN"
| "float_sub x NaN = NaN"
| "float_sub (Infinity s) (Infinity t) = (if s = t then NaN else Infinity s)"
| "float_sub (Infinity s) (Finite t n) = Infinity s"
| "float_sub (Finite s m) (Infinity t) = Infinity (\<not> t)"
| "float_sub (Finite s m) (Finite t n) =
     (let r = fval s m - fval t n
      in if r = 0 then Finite (s \<and> \<not> t) 0 else round64 (r < 0) \<bar>r\<bar>)"

text \<open>\<^verbatim>\<open>x != 0\<close> for a float \<^verbatim>\<open>x\<close>: both zeros equal 0, NaN differs from everything.\<close>

fun float_ne_zero :: "pyfloat \<Rightarrow> bool" where
  "float_ne_zero (Finite s m) = (m \<noteq> 0)"
| "float_ne_zero (Infinity s) = True"
| "float_ne_zero NaN = True"

text \<open>\<^verbatim>\<open>x / y\<close> on floats: Python raises on a zero divisor before dividing.\<close>

fun ieee_div :: "pyfloat \<Rightarrow> pyfloat \<Rightarrow> pyfloat" where
  "ieee_div NaN y = NaN"
| "ieee_div x NaN = NaN"
| "ieee_div (Infinity s) (Infinity t) = NaN"
| "ieee_div (Infinity s) (Finite t n) = Infinity (s \<noteq> t)"
| "ieee_div (Finite s m) (Infinity t) = Finite (s \<noteq> t) 0"
| "ieee_div (Finite s m) (Finite t n) =
     (if n = 0 then (if m = 0 then NaN else Infinity (s \<noteq> t))
      else round64 (s \<noteq> t) (m / n))"

definition float_truediv :: "pyfloat \<Rightarrow> pyfloat \<Rightarrow> exn + pyfloat" where
  "float_truediv x y = (if float_ne_zero y then Inr (ieee_div x y) else Inl ZeroDivisionError)"

text \<open>\<^verbatim>\<open>math.isnan\<close>.\<close>

fun isnan :: "pyfloat \<Rightarrow> bool" where
  "isnan NaN = True"
| "isnan _ = False"

text \<open>A float literal, and \<^verbatim>\<open>float(i)\<close> for an \<^verbatim>\<open>int\<close>, which raises when \<open>i\<close> rounds out of range.\<close>

definition flt :: "rat \<Rightarrow> pyfloat" where
  "flt q = Finite (q < 0) \<bar>q\<bar>"

definition float_of_int :: "int \<Rightarrow> exn + pyfloat" where
  "float_of_int i =
     (case round64 (i < 0) \<bar>of_int i\<bar> of
        Infinity s \<Rightarrow> Inl OverflowError
      | f \<Rightarrow> Inr f)"

subsection \<open>Strings\<close>

text \<open>
  A Python \<^verbatim>\<open>str\<close> is a sequence of Unicode code points, any of which can occur in a
  ticker or a title; \<open>str\<close> embeds an ASCII literal of the script.
  \<^verbatim>\<open>str.strip()\<close> removes leading and trailing white space, the code points for which
  \<^verbatim>\<open>str.isspace\<close> holds.
\<close>

type_synonym pystr = "nat list"

definition str :: "string \<Rightarrow> pystr" where
  "str cs = map of_char cs"

definition isspace :: "nat \<Rightarrow> bool" where
  "isspace c =
     ((9 \<le> c \<and> c \<le> 13) \<or> (28 \<le> c \<and> c \<le> 32) \<or> c = 133 \<or> c = 160 \<or> c = 5760
      \<or> (8192 \<le> c \<and> c \<le> 8202) \<or> c = 8232 \<or> c = 8233 \<or> c = 8239 \<or> c = 8287
      \<or> c = 12288)"

definition py_strip :: "pystr \<Rightarrow> pystr" where
  "py_strip s = rev (dropWhile isspace (rev (dropWhile isspace s)))"

subsection \<open>Values decoded from JSON\<close>

text \<open>
  What the store's client hands over is decoded JSON: \<^verbatim>\<open>None\<close>, booleans, integers,
  floats, strings, lists, and dictionaries with string keys (an association list in
  insertion order; a lookup takes the first entry of a key).
\<close>

datatype pyval =
    PyNone
  | PyBool bool
  | PyInt int
  | PyFloat pyfloat
  | PyStr pystr
  | PyList "pyval list"
  | PyDict "(pystr \<times> pyval) list"

text \<open>Truth value of an object, as \<^verbatim>\<open>if x\<close> and \<^verbatim>\<open>not x\<close> test it.\<close>

fun truthy :: "pyval \<Rightarrow> bool" where
  "truthy PyNone = False"
| "truthy (PyBool b) = b"
| "truthy (PyInt i) = (i \<noteq> 0)"
| "truthy (PyFloat f) = float_ne_zero f"
| "truthy (PyStr s) = (s \<noteq> [])"
| "truthy (PyList xs) = (xs \<noteq> [])"
| "truthy (PyDict d) = (d \<noteq> [])"

text \<open>\<^verbatim>\<open>x[k]\<close> for a string key: only a dictionary can be indexed by a string.\<close>

fun py_getitem :: "pyval \<Rightarrow> pystr \<Rightarrow> exn + pyval" where
  "py_getitem (PyDict d) k = (case map_of d k of None \<Rightarrow> Inl KeyError | Some v \<Rightarrow> Inr v)"
| "py_getitem x k = Inl TypeError"

text \<open>\<^verbatim>\<open>x.get(k, default)\<close>: no other JSON value has the method.\<close>

fun py_get :: "pyval \<Rightarrow> pystr \<Rightarrow> pyval \<Rightarrow> exn + pyval" where
  "py_get (PyDict d) k dflt = Inr (case map_of d k of None \<Rightarrow> dflt | Some v \<Rightarrow> v)"
| "py_get x k dflt = Inl AttributeError"

text \<open>The items \<^verbatim>\<open>for t in x\<close> visits: a string yields its characters, a dictionary its keys.\<close>

fun py_iter :: "pyval \<Rightarrow> exn + pyval list" where
  "py_iter (PyList xs) = Inr xs"
| "py_iter (PyStr s) = Inr (map (\<lambda>c. PyStr [c]) s)"
| "py_iter (PyDict d) = Inr (map (\<lambda>kv. PyStr (fst kv)) d)"
| "py_iter x = Inl TypeError"

text \<open>\<^verbatim>\<open>"".join(xs)\<close>: every item must be a string.\<close>

fun py_join :: "pyval list \<Rightarrow> exn + pystr" where
  "py_join [] = Inr []"
| "py_join (PyStr s # xs) = (case py_join xs of Inl e \<Rightarrow> Inl e | Inr r \<Rightarrow> Inr (s @ r))"
| "py_join (x # xs) = Inl TypeError"

text \<open>
  \<^verbatim>\<open>float(x)\<close>. How Python reads a string as a float is a parameter \<open>parse\<close> of the
  model (\<open>None\<close> where it raises \<^verbatim>\<open>ValueError\<close>).
\<close>

fun py_float :: "(pystr \<Rightarrow> pyfloat option) \<Rightarrow> pyval \<Rightarrow> exn + pyfloat" where
  "py_float parse PyNone = Inl TypeError"
| "py_float parse (PyBool b) = Inr (flt (if b then 1 else 0))"
| "py_float parse (PyInt i) = float_of_int i"
| "py_float parse (PyFloat f) = Inr f"
| "py_float parse (PyStr s) = (case parse s of None \<Rightarrow> Inl ValueError | Some f \<Rightarrow> Inr f)"
| "py_float parse (PyList xs) = Inl TypeError"
| "py_float parse (PyDict d) = Inl TypeError"

text \<open>\<^verbatim>\<open>isinstance(x, (int, float))\<close>; \<^verbatim>\<open>bool\<close> is a subclass of \<^verbatim>\<open>int\<close>.\<close>

fun is_int_or_float :: "pyval \<Rightarrow> bool" where
  "is_int_or_float (PyBool b) = True"
| "is_int_or_float (PyInt i) = True"
| "is_int_or_float (PyFloat f) = True"
| "is_int_or_float x = False"

section \<open>The environment of a run\<close>

text \<open>
  Everything the script does to the outside is an event of the run's history, in
  order. What the outside answers may depend on the whole history so far: the store,
  the price provider and the clock are functions of it.
\<close>

datatype log =
    PRICE_ERROR pystr exn
  | INFO_pages nat
  | WARN_price pystr
  | OK pystr pystr pyfloat "pyfloat option" "pyfloat option"
  | NOTION_ERROR pystr exn
  | DONE nat nat nat pystr pyfloat

datatype event =
    Databases_query "pystr option" "pyval option"
  | Yf_Ticker pystr
  | Yf_fast_info pystr
  | Yf_history pystr
  | Pages_update pyval pyval
  | Print log

text \<open>
  The settings read from the environment when the module is loaded, and the outside:
  \<^item> \<open>databases_query h database_id start_cursor\<close> is \<^verbatim>\<open>client.databases.query\<close>,
    \<open>start_cursor = None\<close> when the argument is not passed;
  \<^item> \<open>pages_update h page_id properties\<close> is \<^verbatim>\<open>client.pages.update\<close>, \<open>None\<close>
    when it returns;
  \<^item> \<open>yf_Ticker h t\<close> is \<^verbatim>\<open>yf.Ticker(t)\<close>, \<open>None\<close> when it returns;
  \<^item> \<open>yf_fast_info h t\<close> is the fast lookup: the value of \<^verbatim>\<open>info["last_price"]\<close>,
    or \<^verbatim>\<open>None\<close> when there is no \<^verbatim>\<open>fast_info\<close>, it is empty or has no such key;
  \<^item> \<open>yf_history h t\<close> is the \<^verbatim>\<open>Close\<close> column of
    \<^verbatim>\<open>tk.history(period="1d", interval="1m")\<close>, empty when there is no history;
  \<^item> \<open>clock h\<close> is \<^verbatim>\<open>datetime.now(timezone.utc).isoformat()\<close>;
  \<^item> \<open>float_of_str s\<close> is what \<^verbatim>\<open>float(s)\<close> reads from a string, \<open>None\<close> when it raises
    \<^verbatim>\<open>ValueError\<close>.
\<close>

record world =
  NOTION_TOKEN :: "pystr option"
  DATABASE_ID :: "pystr option"
  BASE_CURRENCY :: pystr
  FX_RATE :: pyfloat
  UPDATE_ONLY_MISSING :: bool
  float_of_str :: "pystr \<Rightarrow> pyfloat option"
  clock :: "event list \<Rightarrow> pystr"
  databases_query :: "event list \<Rightarrow> pystr option \<Rightarrow> pyval option \<Rightarrow> exn + pyval"
  pages_update :: "event list \<Rightarrow> pyval \<Rightarrow> pyval \<Rightarrow> exn option"
  yf_Ticker :: "event list \<Rightarrow> pystr \<Rightarrow> exn option"
  yf_fast_info :: "event list \<Rightarrow> pystr \<Rightarrow> exn + pyval"
  yf_history :: "event list \<Rightarrow> pystr \<Rightarrow> exn + pyval list"

text \<open>The three counters of \<^verbatim>\<open>main\<close>.\<close>

record counters =
  updated :: nat
  skipped :: nat
  failed :: nat

section \<open>The functions of the script\<close>

subsection \<open>The property names\<close>

definition PROP_TITLE :: pystr where "PROP_TITLE = str ''Name''"
definition PROP_TICKER :: pystr where "PROP_TICKER = str ''Ticker''"
definition PROP_SHARES :: pystr where "PROP_SHARES = str ''Shares''"
definition PROP_AVG_COST :: pystr where "PROP_AVG_COST = str ''Avg Cost''"
definition PROP_PRICE :: pystr where "PROP_PRICE = str ''Price''"
definition PROP_VALUE :: pystr where "PROP_VALUE = str ''Value''"
definition PROP_PL_PCT :: pystr where "PROP_PL_PCT = str ''P/L %''"
definition PROP_LAST_UPDATED :: pystr where "PROP_LAST_UPDATED = str ''Last Updated''"

subsection \<open>\<^verbatim>\<open>require_env\<close> and \<^verbatim>\<open>now_iso\<close>\<close>

text \<open>
  \<^verbatim>\<open>
  def require_env() -> None:
      missing = []
      if not NOTION_TOKEN:
          missing.append("NOTION_TOKEN")
      if not DATABASE_ID:
          missing.append("NOTION_DATABASE_ID")
      if missing:
          raise SystemExit(f"[ENV ERROR] ...: {', '.join(missing)}\n ...")
  \<close>
  A setting is missing when \<^verbatim>\<open>os.getenv\<close> gave \<^verbatim>\<open>None\<close> or the empty string. The
  exception carries the list that the message enumerates.
\<close>

definition unset :: "pystr option \<Rightarrow> bool" where
  "unset v = (case v of None \<Rightarrow> True | Some s \<Rightarrow> s = [])"

definition require_env :: "world \<Rightarrow> exn + unit" where
  "require_env w =
     (let missing = (if unset (NOTION_TOKEN w) then [''NOTION_TOKEN''] else [])
                  @ (if unset (DATABASE_ID w) then [''NOTION_DATABASE_ID''] else [])
      in if missing \<noteq> [] then Inl (SystemExit missing) else Inr ())"

definition now_iso :: "world \<Rightarrow> event list \<Rightarrow> pystr" where
  "now_iso w h = clock w h"

subsection \<open>\<^verbatim>\<open>safe_num\<close> and \<^verbatim>\<open>get_prop_number\<close>\<close>

text \<open>
  \<^verbatim>\<open>
  def safe_num(x: Any) -> Optional[float]:
      try:
          if x is None:
              return None
          if isinstance(x, (int, float)):
              if math.isnan(float(x)):
                  return None
              return float(x)
          return float(x)
      except Exception:
          return None
  \<close>
  \<open>safe_num_try\<close> is the body of the \<^verbatim>\<open>try\<close>.
\<close>

definition safe_num_try :: "(pystr \<Rightarrow> pyfloat option) \<Rightarrow> pyval \<Rightarrow> exn + pyfloat option" where
  "safe_num_try parse x =
     (if x = PyNone then Inr None
      else if is_int_or_float x then
        (case py_float parse x of
           Inl e \<Rightarrow> Inl e
         | Inr f \<Rightarrow>
             if isnan f then Inr None
             else (case py_float parse x of Inl e \<Rightarrow> Inl e | Inr g \<Rightarrow> Inr (Some g)))
      else (case py_float parse x of Inl e \<Rightarrow> Inl e | Inr g \<Rightarrow> Inr (Some g)))"

definition safe_num :: "(pystr \<Rightarrow> pyfloat option) \<Rightarrow> pyval \<Rightarrow> exn + pyfloat option" where
  "safe_num parse x =
     (case safe_num_try parse x of
        Inl e \<Rightarrow> if is_Exception e then Inr None else Inl e
      | Inr r \<Rightarrow> Inr r)"

text \<open>
  \<^verbatim>\<open>
  def get_prop_number(page: Dict[str, Any], prop: str) -> Optional[float]:
      p = page["properties"].get(prop)
      if not p or p["type"] != "number":
          return None
      return safe_num(p.get("number"))
  \<close>
\<close>

definition get_prop_number ::
  "(pystr \<Rightarrow> pyfloat option) \<Rightarrow> pyval \<Rightarrow> pystr \<Rightarrow> exn + pyfloat option" where
  "get_prop_number parse page prop =
     (case py_getitem page (str ''properties'') of
        Inl e \<Rightarrow> Inl e
      | Inr props \<Rightarrow>
     (case py_get props prop PyNone of
        Inl e \<Rightarrow> Inl e
      | Inr p \<Rightarrow>
          if \<not> truthy p then Inr None
          else (case py_getitem p (str ''type'') of
                  Inl e \<Rightarrow> Inl e
                | Inr ty \<Rightarrow>
                    if ty \<noteq> PyStr (str ''number'') then Inr None
                    else (case py_get p (str ''number'') PyNone of
                            Inl e \<Rightarrow> Inl e
                          | Inr x \<Rightarrow> safe_num parse x))))"

subsection \<open>\<^verbatim>\<open>get_prop_rich_text\<close>\<close>

text \<open>
  \<^verbatim>\<open>
  def get_prop_rich_text(page: Dict[str, Any], prop: str) -> str:
      p = page["properties"].get(prop)
      if not p:
          return ""
      if p["type"] == "rich_text":
          rt = p.get("rich_text", [])
          return "".join([t.get("plain_text", "") for t in rt]).strip()
      if p["type"] == "title":
          tt = p.get("title", [])
          return "".join([t.get("plain_text", "") for t in tt]).strip()
      return ""
  \<close>
  \<open>plain_texts\<close> is the list comprehension and \<open>joined_text p key\<close> the two lines
  that both branches share.
\<close>

fun plain_texts :: "pyval list \<Rightarrow> exn + pyval list" where
  "plain_texts [] = Inr []"
| "plain_texts (t # ts) =
     (case py_get t (str ''plain_text'') (PyStr []) of
        Inl e \<Rightarrow> Inl e
      | Inr x \<Rightarrow> (case plain_texts ts of Inl e \<Rightarrow> Inl e | Inr xs \<Rightarrow> Inr (x # xs)))"

definition joined_text :: "pyval \<Rightarrow> pystr \<Rightarrow> exn + pystr" where
  "joined_text p key =
     (case py_get p key (PyList []) of
        Inl e \<Rightarrow> Inl e
      | Inr rt \<Rightarrow>
     (case py_iter rt of
        Inl e \<Rightarrow> Inl e
      | Inr ts \<Rightarrow>
     (case plain_texts ts of
        Inl e \<Rightarrow> Inl e
      | Inr xs \<Rightarrow>
     (case py_join xs of
        Inl e \<Rightarrow> Inl e
      | Inr s \<Rightarrow> Inr (py_strip s)))))"

definition get_prop_rich_text :: "pyval \<Rightarrow> pystr \<Rightarrow> exn + pystr" where
  "get_prop_rich_text page prop =
     (case py_getitem page (str ''properties'') of
        Inl e \<Rightarrow> Inl e
      | Inr props \<Rightarrow>
     (case py_get props prop PyNone of
        Inl e \<Rightarrow> Inl e
      | Inr p \<Rightarrow>
          if \<not> truthy p then Inr []
          else (case py_getitem p (str ''type'') of
                  Inl e \<Rightarrow> Inl e
                | Inr ty \<Rightarrow>
                    if ty = PyStr (str ''rich_text'') then joined_text p (str ''rich_text'')
                    else if ty = PyStr (str ''title'') then joined_text p (str ''title'')
                    else Inr [])))"

subsection \<open>\<^verbatim>\<open>notion_number\<close> and \<^verbatim>\<open>notion_date\<close>\<close>

text \<open>
  \<^verbatim>\<open>
  def notion_number(value: Optional[float]) -> Dict[str, Any]:
      return {"number": value if value is not None else None}

  def notion_date(iso: str) -> Dict[str, Any]:
      return {"date": {"start": iso}}
  \<close>
\<close>

definition notion_number :: "pyfloat option \<Rightarrow> pyval" where
  "notion_number v = PyDict [(str ''number'', (case v of Some f \<Rightarrow> PyFloat f | None \<Rightarrow> PyNone))]"

definition notion_date :: "pystr \<Rightarrow> pyval" where
  "notion_date iso_string = PyDict [(str ''date'', PyDict [(str ''start'', PyStr iso_string)])]"

subsection \<open>\<^verbatim>\<open>fetch_price\<close>\<close>

text \<open>
  \<^verbatim>\<open>
  def fetch_price(ticker: str) -> Optional[float]:
      t = ticker.strip()
      if not t:
          return None
      try:
          tk = yf.Ticker(t)
          info = tk.fast_info if hasattr(tk, "fast_info") else None
          if info and "last_price" in info and info["last_price"] is not None:
              return float(info["last_price"])
          hist = tk.history(period="1d", interval="1m")
          if hist is not None and len(hist) > 0:
              return float(hist["Close"].iloc[-1])
      except Exception as e:
          print(f"[PRICE ERROR] {ticker}: {e}")
      return None
  \<close>
  \<open>fetch_price_try\<close> is the body of the \<^verbatim>\<open>try\<close>: each call of the provider is an
  event, and any of them can raise.
\<close>

definition fetch_price_try ::
  "world \<Rightarrow> pystr \<Rightarrow> event list \<Rightarrow> (exn + pyfloat option) \<times> event list" where
  "fetch_price_try w t h =
     (let h1 = h @ [Yf_Ticker t] in
      case yf_Ticker w h t of
        Some e \<Rightarrow> (Inl e, h1)
      | None \<Rightarrow>
     (let h2 = h1 @ [Yf_fast_info t] in
      case yf_fast_info w h1 t of
        Inl e \<Rightarrow> (Inl e, h2)
      | Inr v \<Rightarrow>
          if v \<noteq> PyNone then
            (case py_float (float_of_str w) v of
               Inl e \<Rightarrow> (Inl e, h2)
             | Inr f \<Rightarrow> (Inr (Some f), h2))
          else
     (let h3 = h2 @ [Yf_history t] in
      case yf_history w h2 t of
        Inl e \<Rightarrow> (Inl e, h3)
      | Inr closes \<Rightarrow>
          if closes \<noteq> [] then
            (case py_float (float_of_str w) (last closes) of
               Inl e \<Rightarrow> (Inl e, h3)
             | Inr f \<Rightarrow> (Inr (Some f), h3))
          else (Inr None, h3))))"

definition fetch_price ::
  "world \<Rightarrow> pystr \<Rightarrow> event list \<Rightarrow> (exn + pyfloat option) \<times> event list" where
  "fetch_price w ticker h =
     (let t = py_strip ticker in
      if t = [] then (Inr None, h)
      else (case fetch_price_try w t h of
              (Inl e, h') \<Rightarrow>
                if is_Exception e then (Inr None, h' @ [Print (PRICE_ERROR ticker e)])
                else (Inl e, h')
            | (Inr r, h') \<Rightarrow> (Inr r, h')))"

subsection \<open>\<^verbatim>\<open>compute_metrics\<close>\<close>

text \<open>
  \<^verbatim>\<open>
  def compute_metrics(shares, avg_cost, price):
      if shares is None or price is None:
          return None, None
      value = shares * price
      pl_pct = None
      if avg_cost is not None and avg_cost != 0:
          pl_pct = (price / avg_cost - 1.0) * 100.0
      return value, pl_pct
  \<close>
  The division can raise \<^verbatim>\<open>ZeroDivisionError\<close>, so the model returns a sum.
\<close>

definition compute_metrics ::
  "pyfloat option \<Rightarrow> pyfloat option \<Rightarrow> pyfloat option \<Rightarrow> exn + (pyfloat option \<times> pyfloat option)" where
  "compute_metrics shares avg_cost price =
     (if shares = None \<or> price = None then Inr (None, None)
      else let value = float_mul (the shares) (the price)
           in if avg_cost \<noteq> None \<and> float_ne_zero (the avg_cost)
              then (case float_truediv (the price) (the avg_cost) of
                      Inl e \<Rightarrow> Inl e
                    | Inr q \<Rightarrow> Inr (Some value, Some (float_mul (float_sub q (flt 1)) (flt 100))))
              else Inr (Some value, None))"

subsection \<open>\<^verbatim>\<open>query_all_pages\<close>\<close>

text \<open>
  \<^verbatim>\<open>
  def query_all_pages(client: Client, database_id: str) -> List[Dict[str, Any]]:
      pages = []
      cursor = None
      while True:
          resp = client.databases.query(database_id=database_id, start_cursor=cursor) \
                 if cursor else client.databases.query(database_id=database_id)
          pages.extend(resp.get("results", []))
          if not resp.get("has_more"):
              break
          cursor = resp.get("next_cursor")
      return pages
  \<close>
  The loop need not end (a store can report more pages for ever), so the model is a
  partial function: \<open>None\<close> is a run that never returns.
\<close>

partial_function (option) query_loop ::
  "world \<Rightarrow> pystr option \<Rightarrow> pyval list \<Rightarrow> pyval \<Rightarrow> event list
     \<Rightarrow> ((exn + pyval list) \<times> event list) option" where
  "query_loop w database_id pages cursor h =
     (let start_cursor = (if truthy cursor then Some cursor else None);
          h1 = h @ [Databases_query database_id start_cursor] in
      case databases_query w h database_id start_cursor of
        Inl e \<Rightarrow> Some (Inl e, h1)
      | Inr resp \<Rightarrow>
     (case py_get resp (str ''results'') (PyList []) of
        Inl e \<Rightarrow> Some (Inl e, h1)
      | Inr results \<Rightarrow>
     (case py_iter results of
        Inl e \<Rightarrow> Some (Inl e, h1)
      | Inr items \<Rightarrow>
     (case py_get resp (str ''has_more'') PyNone of
        Inl e \<Rightarrow> Some (Inl e, h1)
      | Inr has_more \<Rightarrow>
          if \<not> truthy has_more then Some (Inr (pages @ items), h1)
          else (case py_get resp (str ''next_cursor'') PyNone of
                  Inl e \<Rightarrow> Some (Inl e, h1)
                | Inr next_cursor \<Rightarrow> query_loop w database_id (pages @ items) next_cursor h1)))))"

definition query_all_pages ::
  "world \<Rightarrow> pystr option \<Rightarrow> event list \<Rightarrow> ((exn + pyval list) \<times> event list) option" where
  "query_all_pages w database_id h = query_loop w database_id [] PyNone h"

subsection \<open>\<^verbatim>\<open>update_page\<close>\<close>

text \<open>
  \<^verbatim>\<open>
  def update_page(client, page_id, price, value, pl_pct) -> None:
      props = {
          PROP_PRICE: notion_number(price),
          PROP_VALUE: notion_number(value),
          PROP_PL_PCT: notion_number(pl_pct),
          PROP_LAST_UPDATED: notion_date(now_iso()),
      }
      client.pages.update(page_id=page_id, properties=props)
  \<close>
\<close>

definition update_props :: "world \<Rightarrow> pyfloat option \<Rightarrow> pyfloat option \<Rightarrow> pyfloat option
    \<Rightarrow> event list \<Rightarrow> (pystr \<times> pyval) list" where
  "update_props w price val pl_pct h =
     [(PROP_PRICE, notion_number price),
      (PROP_VALUE, notion_number val),
      (PROP_PL_PCT, notion_number pl_pct),
      (PROP_LAST_UPDATED, notion_date (now_iso w h))]"

definition update_page ::
  "world \<Rightarrow> pyval \<Rightarrow> pyfloat option \<Rightarrow> pyfloat option \<Rightarrow> pyfloat option
     \<Rightarrow> event list \<Rightarrow> (exn + unit) \<times> event list" where
  "update_page w page_id price val pl_pct h =
     (let props = PyDict (update_props w price val pl_pct h);
          h1 = h @ [Pages_update page_id props] in
      case pages_update w h page_id props of
        Some e \<Rightarrow> (Inl e, h1)
      | None \<Rightarrow> (Inr (), h1))"

subsection \<open>\<^verbatim>\<open>main\<close>\<close>

text \<open>
  The body of \<^verbatim>\<open>for page in pages:\<close>, on the counters and the history.
  \<^verbatim>\<open>
      page_id = page["id"]
      ticker = get_prop_rich_text(page, PROP_TICKER)
      if not ticker:
          skipped += 1
          continue
      shares = get_prop_number(page, PROP_SHARES)
      avg_cost = get_prop_number(page, PROP_AVG_COST)
      existing_price = get_prop_number(page, PROP_PRICE)
      if UPDATE_ONLY_MISSING and existing_price is not None:
          skipped += 1
          continue
      price = fetch_price(ticker)
      if price is None:
          failed += 1
          print(f"[WARN] ...: {ticker}")
          continue
      # price_display = price * FX_RATE
      price_display = price
      value, pl_pct = compute_metrics(shares, avg_cost, price_display)
      try:
          update_page(client, page_id, price_display, value, pl_pct)
          updated += 1
          title = get_prop_rich_text(page, PROP_TITLE) or ticker
          print(f"[OK] {title} ({ticker}) price=... value=... pl%=...")
      except Exception as e:
          failed += 1
          print(f"[NOTION ERROR] ... {ticker}: {e}")
  \<close>
  \<open>write_step\<close> is the \<^verbatim>\<open>try\<close> statement with its handler. Printing is taken not to
  fail.
\<close>

definition write_step ::
  "world \<Rightarrow> pyval \<Rightarrow> pyval \<Rightarrow> pystr \<Rightarrow> pyfloat \<Rightarrow> pyfloat option \<Rightarrow> pyfloat option
     \<Rightarrow> counters \<Rightarrow> event list \<Rightarrow> (exn + counters) \<times> event list" where
  "write_step w page page_id ticker price_display val pl_pct c h =
     (case update_page w page_id (Some price_display) val pl_pct h of
        (Inl e, h1) \<Rightarrow>
          if is_Exception e
          then (Inr (c\<lparr>failed := failed c + 1\<rparr>), h1 @ [Print (NOTION_ERROR ticker e)])
          else (Inl e, h1)
      | (Inr u, h1) \<Rightarrow>
          (let c1 = c\<lparr>updated := updated c + 1\<rparr> in
           case get_prop_rich_text page PROP_TITLE of
             Inl e \<Rightarrow>
               if is_Exception e
               then (Inr (c1\<lparr>failed := failed c1 + 1\<rparr>), h1 @ [Print (NOTION_ERROR ticker e)])
               else (Inl e, h1)
           | Inr t \<Rightarrow>
               (let title = (if t \<noteq> [] then t else ticker)
                in (Inr c1, h1 @ [Print (OK title ticker price_display val pl_pct)]))))"

definition main_loop_body ::
  "world \<Rightarrow> pyval \<Rightarrow> counters \<Rightarrow> event list \<Rightarrow> (exn + counters) \<times> event list" where
  "main_loop_body w page c h =
     (case py_getitem page (str ''id'') of
        Inl e \<Rightarrow> (Inl e, h)
      | Inr page_id \<Rightarrow>
     (case get_prop_rich_text page PROP_TICKER of
        Inl e \<Rightarrow> (Inl e, h)
      | Inr ticker \<Rightarrow>
          if ticker = [] then (Inr (c\<lparr>skipped := skipped c + 1\<rparr>), h)
          else
     (case get_prop_number (float_of_str w) page PROP_SHARES of
        Inl e \<Rightarrow> (Inl e, h)
      | Inr shares \<Rightarrow>
     (case get_prop_number (float_of_str w) page PROP_AVG_COST of
        Inl e \<Rightarrow> (Inl e, h)
      | Inr avg_cost \<Rightarrow>
     (case get_prop_number (float_of_str w) page PROP_PRICE of
        Inl e \<Rightarrow> (Inl e, h)
      | Inr existing_price \<Rightarrow>
          if UPDATE_ONLY_MISSING w \<and> existing_price \<noteq> None
          then (Inr (c\<lparr>skipped := skipped c + 1\<rparr>), h)
          else
     (case fetch_price w ticker h of
        (Inl e, h1) \<Rightarrow> (Inl e, h1)
      | (Inr None, h1) \<Rightarrow> (Inr (c\<lparr>failed := failed c + 1\<rparr>), h1 @ [Print (WARN_price ticker)])
      | (Inr (Some price), h1) \<Rightarrow>
          (let price_display = price in
           case compute_metrics shares avg_cost (Some price_display) of
             Inl e \<Rightarrow> (Inl e, h1)
           | Inr (val, pl_pct) \<Rightarrow>
               write_step w page page_id ticker price_display val pl_pct c h1)))))))"

text \<open>The \<^verbatim>\<open>for\<close> loop: the pages in order, stopping at an exception that escapes the body.\<close>

fun main_loop ::
  "world \<Rightarrow> pyval list \<Rightarrow> counters \<Rightarrow> event list \<Rightarrow> (exn + counters) \<times> event list" where
  "main_loop w [] c h = (Inr c, h)"
| "main_loop w (page # pages) c h =
     (case main_loop_body w page c h of
        (Inl e, h1) \<Rightarrow> (Inl e, h1)
      | (Inr c1, h1) \<Rightarrow> main_loop w pages c1 h1)"

text \<open>
  \<^verbatim>\<open>
  def main() -> None:
      require_env()
      client = Client(auth=NOTION_TOKEN)
      pages = query_all_pages(client, DATABASE_ID)
      print(f"[INFO] ...: {len(pages)}")
      updated = 0
      skipped = 0
      failed = 0
      for page in pages:
          ...
      print(f"[DONE] updated={updated} skipped={skipped} failed={failed} currency={BASE_CURRENCY} fx={FX_RATE}")
  \<close>
  A run ends with the counters (\<open>Inr\<close>: \<^verbatim>\<open>main\<close> returns and the process exits with
  status 0) or with the exception that escaped (\<open>Inl\<close>: the process exits with a non-zero
  status), and with the history of what it did; \<open>None\<close> is a run that never ends.
\<close>

definition main :: "world \<Rightarrow> ((exn + counters) \<times> event list) option" where
  "main w =
     (case require_env w of
        Inl e \<Rightarrow> Some (Inl e, [])
      | Inr u \<Rightarrow>
     (case query_all_pages w (DATABASE_ID w) [] of
        None \<Rightarrow> None
      | Some (Inl e, h) \<Rightarrow> Some (Inl e, h)
      | Some (Inr pages, h) \<Rightarrow>
          (case main_loop w pages \<lparr>updated = 0, skipped = 0, failed = 0\<rparr>
                  (h @ [Print (INFO_pages (length pages))]) of
             (Inl e, h1) \<Rightarrow> Some (Inl e, h1)
           | (Inr c, h1) \<Rightarrow>
               Some (Inr c, h1 @ [Print (DONE (updated c) (skipped c) (failed c)
                                          (BASE_CURRENCY w) (FX_RATE w))]))))"

definition exit_status :: "(exn + counters) \<times> event list \<Rightarrow> nat" where
  "exit_status r = (case fst r of Inr c \<Rightarrow> 0 | Inl e \<Rightarrow> 1)"

section \<open>The records and responses of the store\<close>

text \<open>
  The shape of what the store returns, as far as the script reads it. A rich text object
  carries its \<^verbatim>\<open>plain_text\<close>; a property object carries its \<^verbatim>\<open>type\<close>, and under
  the name of that type its payload, an array of rich text objects for the types
  \<^verbatim>\<open>rich_text\<close> and \<^verbatim>\<open>title\<close>; a page has an \<^verbatim>\<open>id\<close> and its
  \<^verbatim>\<open>properties\<close>, property objects by name.
\<close>

fun is_string :: "pyval option \<Rightarrow> bool" where
  "is_string (Some (PyStr s)) = True"
| "is_string v = False"

fun rich_text_object :: "pyval \<Rightarrow> bool" where
  "rich_text_object (PyDict d) = is_string (map_of d (str ''plain_text''))"
| "rich_text_object t = False"

fun rich_text_array :: "pyval option \<Rightarrow> bool" where
  "rich_text_array (Some (PyList ts)) = list_all rich_text_object ts"
| "rich_text_array v = False"

fun payload_of_type :: "(pystr \<times> pyval) list \<Rightarrow> pyval option \<Rightarrow> bool" where
  "payload_of_type d (Some (PyStr ty)) =
     (if ty = str ''rich_text'' then rich_text_array (map_of d (str ''rich_text''))
      else if ty = str ''title'' then rich_text_array (map_of d (str ''title''))
      else True)"
| "payload_of_type d v = False"

fun property_object :: "pyval \<Rightarrow> bool" where
  "property_object (PyDict d) = payload_of_type d (map_of d (str ''type''))"
| "property_object p = False"

fun property_objects :: "pyval option \<Rightarrow> bool" where
  "property_objects (Some (PyDict ps)) = list_all (\<lambda>kv. property_object (snd kv)) ps"
| "property_objects v = False"

fun notion_page :: "pyval \<Rightarrow> bool" where
  "notion_page (PyDict d) =
     (is_string (map_of d (str ''id'')) \<and> property_objects (map_of d (str ''properties'')))"
| "notion_page page = False"

text \<open>
  A store that reports the pages \<open>P # Ps\<close>, one per response, from the request
  \<open>start_cursor\<close> at history \<open>h\<close> on: each response lists its page under
  \<^verbatim>\<open>results\<close>; \<^verbatim>\<open>has_more\<close> is true on every response but the last, and
  comes with a non-empty \<^verbatim>\<open>next_cursor\<close>, the request for which is answered by the
  rest.
\<close>

fun reports ::
  "world \<Rightarrow> pystr option \<Rightarrow> event list \<Rightarrow> pyval option \<Rightarrow> pyval list list \<Rightarrow> bool" where
  "reports w database_id h start_cursor [] = False"
| "reports w database_id h start_cursor (P # Ps) =
     (case databases_query w h database_id start_cursor of
        Inr (PyDict d) \<Rightarrow>
          map_of d (str ''results'') = Some (PyList P) \<and>
          (if Ps = [] then map_of d (str ''has_more'') = Some (PyBool False)
           else map_of d (str ''has_more'') = Some (PyBool True) \<and>
                (case map_of d (str ''next_cursor'') of
                   Some (PyStr c) \<Rightarrow>
                     c \<noteq> [] \<and>
                     reports w database_id (h @ [Databases_query database_id start_cursor])
                       (Some (PyStr c)) Ps
                 | _ \<Rightarrow> False))
      | _ \<Rightarrow> False)"


text \<open>The kinds of events: a call of the price provider, a write to the store, a query.\<close>

fun is_fetch :: "event \<Rightarrow> bool" where
  "is_fetch (Yf_Ticker t) = True"
| "is_fetch (Yf_fast_info t) = True"
| "is_fetch (Yf_history t) = True"
| "is_fetch ev = False"

fun is_write :: "event \<Rightarrow> bool" where
  "is_write (Pages_update page_id props) = True"
| "is_write ev = False"

fun is_query :: "event \<Rightarrow> bool" where
  "is_query (Databases_query database_id start_cursor) = True"
| "is_query ev = False"

section \<open>Example inputs\<close>

text \<open>
  A record as the store returns it, with a title, a ticker and the three number
  properties the script reads, and an environment in which every call succeeds: all
  settings present, missing-only mode off, one empty page of records, a provider whose
  fast lookup yields 110, and a store that accepts every update. The examples on which the
  theorems below are instantiated are variations of these.
\<close>

definition number_property :: "pyval \<Rightarrow> pyval" where
  "number_property x = PyDict [(str ''id'', PyStr (str ''n'')), (str ''type'', PyStr (str ''number'')),
                               (str ''number'', x)]"

definition text_property :: "string \<Rightarrow> pystr list \<Rightarrow> pyval" where
  "text_property ty fragments =
     PyDict [(str ''id'', PyStr (str ''t'')), (str ''type'', PyStr (str ty)),
             (str ty, PyList (map (\<lambda>s. PyDict [(str ''plain_text'', PyStr s)]) fragments))]"

definition example_properties :: "pystr list \<Rightarrow> pyval \<Rightarrow> pyval \<Rightarrow> pyval \<Rightarrow> (pystr \<times> pyval) list" where
  "example_properties ticker shares avg_cost price =
     [(PROP_TITLE, text_property ''title'' [str ''Apple'']),
      (PROP_TICKER, text_property ''rich_text'' ticker),
      (PROP_SHARES, number_property shares),
      (PROP_AVG_COST, number_property avg_cost),
      (PROP_PRICE, number_property price)]"

definition example_page :: "pystr list \<Rightarrow> pyval \<Rightarrow> pyval \<Rightarrow> pyval \<Rightarrow> pyval" where
  "example_page ticker shares avg_cost price =
     PyDict [(str ''id'', PyStr (str ''page-1'')),
             (str ''properties'', PyDict (example_properties ticker shares avg_cost price))]"

definition example_world :: world where
  "example_world =
     \<lparr>NOTION_TOKEN = Some (str ''secret''),
      DATABASE_ID = Some (str ''db''),
      BASE_CURRENCY = str ''USD'',
      FX_RATE = flt 1,
      UPDATE_ONLY_MISSING = False,
      float_of_str = (\<lambda>s. None),
      clock = (\<lambda>h. str ''2024-01-01T00:00:00+00:00''),
      databases_query = (\<lambda>h database_id start_cursor.
         Inr (PyDict [(str ''results'', PyList []), (str ''has_more'', PyBool False),
                      (str ''next_cursor'', PyNone)])),
      pages_update = (\<lambda>h page_id props. None),
      yf_Ticker = (\<lambda>h t. None),
      yf_fast_info = (\<lambda>h t. Inr (PyFloat (flt 110))),
      yf_history = (\<lambda>h t. Inr [])\<rparr>"

text \<open>
  A store with two pages of one record each, the second record with a blank ticker: asked
  without a cursor it answers with the first page and a cursor, asked with a cursor it
  answers with the last page.
\<close>

definition example_store :: "event list \<Rightarrow> pystr option \<Rightarrow> pyval option \<Rightarrow> exn + pyval" where
  "example_store h database_id start_cursor =
     (case start_cursor of
        None \<Rightarrow>
          Inr (PyDict [(str ''results'',
                        PyList [example_page [str ''AAPL''] (PyFloat (flt 10)) (PyFloat (flt 100)) PyNone]),
                       (str ''has_more'', PyBool True),
                       (str ''next_cursor'', PyStr (str ''cursor-2''))])
      | Some c \<Rightarrow>
          Inr (PyDict [(str ''results'', PyList [example_page [[32]] PyNone PyNone PyNone]),
                       (str ''has_more'', PyBool False),
                       (str ''next_cursor'', PyNone)]))"

definition paged_world :: world where
  "paged_world = example_world\<lparr>databases_query := example_store\<rparr>"

text \<open>
  A record whose title payload is null where the store sends a list, so that the list
  comprehension of \<^verbatim>\<open>get_prop_rich_text\<close> raises \<^verbatim>\<open>TypeError\<close> when the
  title is read; its ticker and its numbers are those of the first record above. And a
  store that holds this record alone, on one page.
\<close>

definition untitled_page :: pyval where
  "untitled_page =
     PyDict [(str ''id'', PyStr (str ''page-1'')),
             (str ''properties'',
              PyDict [(PROP_TITLE, PyDict [(str ''id'', PyStr (str ''title'')),
                                           (str ''type'', PyStr (str ''title'')),
                                           (str ''title'', PyNone)]),
                      (PROP_TICKER, text_property ''rich_text'' [str ''AAPL'']),
                      (PROP_SHARES, number_property (PyFloat (flt 10))),
                      (PROP_AVG_COST, number_property (PyFloat (flt 100))),
                      (PROP_PRICE, number_property PyNone)])]"

definition untitled_store :: "event list \<Rightarrow> pystr option \<Rightarrow> pyval option \<Rightarrow> exn + pyval" where
  "untitled_store h database_id start_cursor =
     Inr (PyDict [(str ''results'', PyList [untitled_page]),
                  (str ''has_more'', PyBool False),
                  (str ''next_cursor'', PyNone)])"

definition untitled_world :: world where
  "untitled_world = example_world\<lparr>databases_query := untitled_store\<rparr>"

section \<open>Properties\<close>

subsection \<open>Rounding to binary64\<close>

text \<open>
  The exponent \<open>ilog2\<close> computes is the binary exponent, and \<open>rne\<close> rounds to a nearest
  integer, so that \<open>round64\<close> is the rounding of IEEE 754: to a nearest representable
  magnitude.
\<close>

lemma pow2_powi: "pow2 e = 2 powi e"
  by (simp add: pow2_def power_int_def inverse_eq_divide power_one_over)

lemma pow2_pos [simp]: "0 < pow2 e"
  by (simp add: pow2_powi)

lemma pow2_nonneg [simp]: "0 \<le> pow2 e"
  using pow2_pos [of e] by linarith

lemma pow2_add: "pow2 (a + b) = pow2 a * pow2 b"
  by (simp add: pow2_powi power_int_add)

lemma pow2_mono: "a \<le> b \<Longrightarrow> pow2 a \<le> pow2 b"
  by (simp add: pow2_powi power_int_increasing)

lemma pow2_strict_mono: "a < b \<Longrightarrow> pow2 a < pow2 b"
  by (simp add: pow2_powi power_int_strict_increasing)

lemma pow2_nat: "0 \<le> e \<Longrightarrow> pow2 e = of_int (2 ^ nat e)"
  by (simp add: pow2_def)

lemma ilog2_bounds:
  assumes "0 < m"
  shows "pow2 (ilog2 m) \<le> m \<and> m < pow2 (ilog2 m + 1)"
proof -
  obtain a b where q: "quotient_of m = (a, b)"
    by (cases "quotient_of m")
  then have b: "0 < b" and m: "m = of_int a / of_int b"
    by (simp_all add: quotient_of_denom_pos quotient_of_div)
  with assms have a: "0 < a"
    by (simp add: zero_less_divide_iff)
  let ?la = "bitlen a" and ?lb = "bitlen b"
  from a b have la: "1 \<le> ?la" and lb: "1 \<le> ?lb"
    by (simp_all add: bitlen_alt_def)
  from bitlen_bounds [OF a] la have a_bounds: "pow2 (?la - 1) \<le> of_int a" "of_int a < pow2 ?la"
    by (simp_all add: pow2_nat del: of_int_power) 
  from bitlen_bounds [OF b] lb have b_bounds: "pow2 (?lb - 1) \<le> of_int b" "of_int b < pow2 ?lb"
    by (simp_all add: pow2_nat del: of_int_power)
  have upper: "m < pow2 (?la - ?lb + 1)"
  proof -
    have "of_int a < pow2 (?la - ?lb + 1) * pow2 (?lb - 1)"
      using a_bounds(2) by (simp add: pow2_add [symmetric])
    also have "\<dots> \<le> pow2 (?la - ?lb + 1) * of_int b"
      using b_bounds(1) by simp
    finally show ?thesis
      using b by (simp add: m pos_divide_less_eq)
  qed
  have lower: "pow2 (?la - ?lb - 1) < m"
  proof -
    have "pow2 (?la - ?lb - 1) * of_int b < pow2 (?la - ?lb - 1) * pow2 ?lb"
      using b_bounds(2) by simp
    also have "\<dots> \<le> of_int a"
      using a_bounds(1) by (simp add: pow2_add [symmetric])
    finally show ?thesis
      using b by (simp add: m pos_less_divide_eq)
  qed
  show ?thesis
    using upper lower q by (auto simp: ilog2_def Let_def not_le)
qed

lemma rne_nearest: "\<bar>of_int (rne x) - x\<bar> \<le> 1 / 2"
proof -
  have "of_int \<lfloor>x\<rfloor> \<le> x" "x < of_int \<lfloor>x\<rfloor> + 1"
    using floor_correct [of x] by simp_all
  then show ?thesis
    by (auto simp: rne_def Let_def abs_le_iff)
qed

lemma rne_tie_even: "x - of_int \<lfloor>x\<rfloor> = 1 / 2 \<Longrightarrow> even (rne x)"
  by (simp add: rne_def Let_def)

lemma ilog2_unique:
  assumes "pow2 e \<le> m" and "m < pow2 (e + 1)"
  shows "ilog2 m = e"
proof -
  from assms(1) have "0 < m"
    using pow2_pos [of e] by linarith
  from ilog2_bounds [OF this] have b: "pow2 (ilog2 m) \<le> m" "m < pow2 (ilog2 m + 1)"
    by simp_all
  have "\<not> ilog2 m < e"
  proof
    assume "ilog2 m < e"
    then have "pow2 (ilog2 m + 1) \<le> pow2 e"
      by (intro pow2_mono) simp
    with b(2) assms(1) show False
      by linarith
  qed
  moreover have "\<not> e < ilog2 m"
  proof
    assume "e < ilog2 m"
    then have "pow2 (e + 1) \<le> pow2 (ilog2 m)"
      by (intro pow2_mono) simp
    with b(1) assms(2) show False
      by linarith
  qed
  ultimately show ?thesis
    by linarith
qed

lemma rne_of_int [simp]: "rne (of_int n) = n"
  by (simp add: rne_def)

lemma rne_bounds: "0 \<le> x \<Longrightarrow> 0 \<le> rne x" "x \<le> of_int k \<Longrightarrow> rne x \<le> k"
proof -
  show "0 \<le> x \<Longrightarrow> 0 \<le> rne x"
    by (auto simp: rne_def Let_def)
  assume le: "x \<le> of_int k"
  then have f: "\<lfloor>x\<rfloor> \<le> k"
    by (simp add: floor_le_iff)
  show "rne x \<le> k"
  proof (cases "\<lfloor>x\<rfloor> = k")
    case True
    with le have "x = of_int \<lfloor>x\<rfloor>"
      using floor_correct [of x] by simp
    then show ?thesis
      using True by (metis rne_of_int order_refl)
  next
    case False
    with f have "\<lfloor>x\<rfloor> + 1 \<le> k"
      by simp
    then show ?thesis
      by (auto simp: rne_def Let_def)
  qed
qed

text \<open>
  What \<open>round64\<close> returns is correctly rounded: a finite result is a multiple \<open>n * ulp\<close> of
  the unit in the last place with \<open>n \<le> 2 ^ 53\<close>, below \<open>2 ^ 1024\<close>, and at most half a
  unit away from the exact magnitude; an infinite result stands for a rounded magnitude
  of \<open>2 ^ 1024\<close> or more.
\<close>

lemma round64_correct:
  assumes "0 < m"
  defines "ulp \<equiv> pow2 (max (ilog2 m) (- 1022) - 52)"
  shows "(round64 s m = Finite t r \<longrightarrow>
            t = s \<and> \<bar>r - m\<bar> \<le> ulp / 2 \<and> r < pow2 1024 \<and>
            (\<exists>n. r = of_int n * ulp \<and> 0 \<le> n \<and> n \<le> 2 ^ 53)) \<and>
         (round64 s m = Infinity t \<longrightarrow> t = s \<and> pow2 1024 \<le> of_int (rne (m / ulp)) * ulp)"
proof -
  let ?n = "rne (m / ulp)"
  let ?r = "of_int ?n * ulp"
  have ulp: "0 < ulp"
    by (simp add: ulp_def)
  have r: "round64 s m = (if ?r \<noteq> 0 \<and> 1023 < ilog2 ?r then Infinity s else Finite s ?r)"
    using assms(1) by (simp add: round64_def Let_def ulp_def)
  have near: "\<bar>?r - m\<bar> \<le> ulp / 2"
  proof -
    have "?r - m = (of_int ?n - m / ulp) * ulp"
      using ulp by (simp add: left_diff_distrib)
    then have "\<bar>?r - m\<bar> = \<bar>of_int ?n - m / ulp\<bar> * ulp"
      using ulp by (simp add: abs_mult)
    also have "\<dots> \<le> (1 / 2) * ulp"
      using rne_nearest [of "m / ulp"] ulp by (intro mult_right_mono) simp_all
    finally show ?thesis
      by simp
  qed
  have n0: "0 \<le> ?n"
    using assms(1) ulp by (intro rne_bounds(1)) simp
  have "m < pow2 (ilog2 m + 1)"
    using ilog2_bounds [OF assms(1)] by simp
  also have "\<dots> \<le> pow2 (53 + (max (ilog2 m) (- 1022) - 52))"
    by (intro pow2_mono) simp
  also have "\<dots> = 2 ^ 53 * ulp"
  proof -
    have "pow2 53 = 2 ^ 53"
      by (simp add: pow2_def)
    then show ?thesis
      by (simp only: pow2_add ulp_def)
  qed
  finally have "m / ulp \<le> of_int (2 ^ 53)"
    using ulp by (simp add: pos_divide_le_eq)
  then have n53: "?n \<le> 2 ^ 53"
    by (rule rne_bounds(2))
  have small: "?r < pow2 1024" if "\<not> (?r \<noteq> 0 \<and> 1023 < ilog2 ?r)"
  proof (cases "?r = 0")
    case True
    with pow2_pos [of 1024] show ?thesis
      by (metis)
  next
    case False
    with n0 ulp have pos: "0 < ?r"
      by (simp add: zero_less_mult_iff)
    from that False have "ilog2 ?r + 1 \<le> 1024"
      by simp
    then have "pow2 (ilog2 ?r + 1) \<le> pow2 1024"
      by (rule pow2_mono)
    with ilog2_bounds [OF pos] show ?thesis
      by linarith
  qed
  have big: "pow2 1024 \<le> ?r" if "?r \<noteq> 0 \<and> 1023 < ilog2 ?r"
  proof -
    from that n0 ulp have pos: "0 < ?r"
      by (simp add: zero_less_mult_iff)
    from that have "pow2 1024 \<le> pow2 (ilog2 ?r)"
      by (intro pow2_mono) simp
    with ilog2_bounds [OF pos] show ?thesis
      by linarith
  qed
  show ?thesis
    using r near n0 n53 small big by (auto split: if_splits)
qed

text \<open>A normal binary64 magnitude is its own rounding.\<close>

lemma round64_normal:
  assumes "2 ^ 52 \<le> n" "n < 2 ^ 53" "- 1074 \<le> k" "k \<le> 971"
  shows "round64 s (of_int n * pow2 k) = Finite s (of_int n * pow2 k)"
proof -
  let ?m = "of_int n * pow2 k :: rat"
  have n: "(2 :: rat) ^ 52 \<le> of_int n" "of_int n < (2 :: rat) ^ 53"
    using assms(1,2) of_int_le_iff [of "2 ^ 52" n, where ?'a = rat]
      of_int_less_iff [of n "2 ^ 53", where ?'a = rat]
    by simp_all
  have p: "pow2 52 = 2 ^ 52" "pow2 53 = 2 ^ 53"
    by (simp_all add: pow2_def)
  have "pow2 (52 + k) = 2 ^ 52 * pow2 k"
    by (simp only: pow2_add p)
  also have "\<dots> \<le> ?m"
    using n(1) by (intro mult_right_mono) simp_all
  finally have lower: "pow2 (k + 52) \<le> ?m"
    by (simp only: add.commute)
  have "?m < 2 ^ 53 * pow2 k"
    using n(2) by (intro mult_strict_right_mono) simp_all
  also have "\<dots> = pow2 (53 + k)"
    by (simp only: pow2_add p)
  finally have upper: "?m < pow2 (k + 52 + 1)"
    by (simp add: add.commute)
  from lower upper have e: "ilog2 ?m = k + 52"
    by (rule ilog2_unique)
  have "0 < ?m"
    using lower pow2_pos [of "k + 52"] by linarith
  then have nz: "?m \<noteq> 0"
    by (metis less_irrefl)
  have "max (k + 52) (- 1022) - 52 = k"
    using assms(3) by simp
  with e nz assms(4) show ?thesis
    by (simp add: round64_def Let_def del: of_int_mult)
qed

lemma round64_not_nan: "round64 s m \<noteq> NaN"
  by (simp add: round64_def Let_def)

lemma float_of_int_not_nan: "float_of_int i = Inr f \<Longrightarrow> \<not> isnan f"
  by (cases f) (auto simp: float_of_int_def round64_not_nan split: pyfloat.splits)

lemma float_of_int_raises: "float_of_int i = Inl e \<Longrightarrow> e = OverflowError"
  by (auto simp: float_of_int_def split: pyfloat.splits)

subsection \<open>Strings\<close>

lemma str_eq_iff [simp]: "str a = str b \<longleftrightarrow> a = b"
  by (simp add: str_def inj_on_def)

lemma str_Nil_iff [simp]: "str a = [] \<longleftrightarrow> a = []"
  by (simp add: str_def)

lemma str_simps: "str [] = []" "str (c # cs) = of_char c # str cs"
  by (simp_all add: str_def)

lemma dropWhile_hd: "dropWhile P xs \<noteq> [] \<Longrightarrow> \<not> P (hd (dropWhile P xs))"
  by (simp add: hd_dropWhile)

lemma dropWhile_id: "xs \<noteq> [] \<Longrightarrow> \<not> P (hd xs) \<Longrightarrow> dropWhile P xs = xs"
  by (cases xs) auto

lemma dropWhile_last: "dropWhile P xs \<noteq> [] \<Longrightarrow> last (dropWhile P xs) = last xs"
  by (induction xs) (auto split: if_splits)

lemma py_strip_blank: "py_strip s = [] \<longleftrightarrow> (\<forall>c\<in>set s. isspace c)"
proof
  assume "py_strip s = []"
  then have "dropWhile isspace (rev (dropWhile isspace s)) = []"
    by (simp add: py_strip_def)
  then have "\<forall>c\<in>set (dropWhile isspace s). isspace c"
    by simp
  then have "dropWhile isspace s = []"
    using dropWhile_hd [of isspace s] by (cases "dropWhile isspace s") auto
  then show "\<forall>c\<in>set s. isspace c"
    by simp
next
  assume "\<forall>c\<in>set s. isspace c"
  then have "dropWhile isspace s = []"
    by simp
  then show "py_strip s = []"
    unfolding py_strip_def by (simp only: rev.simps dropWhile.simps)
qed

lemma py_strip_ends:
  assumes "py_strip s \<noteq> []"
  shows "\<not> isspace (hd (py_strip s))" and "\<not> isspace (last (py_strip s))"
proof -
  let ?t = "dropWhile isspace s"
  let ?u = "dropWhile isspace (rev ?t)"
  from assms have u: "?u \<noteq> []"
    by (simp add: py_strip_def)
  have t: "?t \<noteq> []"
  proof
    assume "?t = []"
    then have "?u = []"
      by (simp only: rev.simps dropWhile.simps)
    with u show False ..
  qed
  have hd_u: "\<not> isspace (hd ?u)"
    using u by (rule dropWhile_hd)
  have hd_t: "\<not> isspace (hd ?t)"
    using t by (rule dropWhile_hd)
  have "last ?u = last (rev ?t)"
    using u by (rule dropWhile_last)
  then have last_u: "last ?u = hd ?t"
    using t by (simp add: last_rev)
  show "\<not> isspace (hd (py_strip s))"
    using u last_u hd_t by (simp add: py_strip_def hd_rev)
  show "\<not> isspace (last (py_strip s))"
    using u hd_u by (simp add: py_strip_def last_rev)
qed

lemma py_strip_idem [simp]: "py_strip (py_strip s) = py_strip s"
proof (cases "py_strip s = []")
  case True
  have "py_strip [] = []"
    by (simp add: py_strip_def)
  with True show ?thesis
    by simp
next
  case False
  let ?r = "py_strip s"
  have 1: "dropWhile isspace ?r = ?r"
    using False py_strip_ends(1) [OF False] by (rule dropWhile_id)
  have 2: "dropWhile isspace (rev ?r) = rev ?r"
    using False py_strip_ends(2) [OF False] by (intro dropWhile_id) (simp_all add: hd_rev)
  show ?thesis
    unfolding py_strip_def [of ?r] 1 2 by simp
qed

subsection \<open>The field accessors on the store's records\<close>

lemma py_float_raises: "py_float parse x = Inl e \<Longrightarrow> is_Exception e"
  by (cases x) (auto simp: float_of_int_def split: option.splits pyfloat.splits)

lemma safe_num_try_raises: "safe_num_try parse x = Inl e \<Longrightarrow> is_Exception e"
  by (auto simp: safe_num_try_def split: if_splits sum.splits dest: py_float_raises)

lemma safe_num_returns: "\<exists>r. safe_num parse x = Inr r"
  by (auto simp: safe_num_def split: sum.splits dest: safe_num_try_raises)

lemma safe_num_result:
  "safe_num parse x =
     Inr (case x of
            PyNone \<Rightarrow> None
          | PyBool b \<Rightarrow> Some (flt (if b then 1 else 0))
          | PyInt i \<Rightarrow> (case float_of_int i of Inl e \<Rightarrow> None | Inr f \<Rightarrow> Some f)
          | PyFloat f \<Rightarrow> if isnan f then None else Some f
          | PyStr s \<Rightarrow> parse s
          | PyList xs \<Rightarrow> None
          | PyDict d \<Rightarrow> None)"
proof (cases x)
  case (PyInt i)
  then show ?thesis
    by (auto simp: safe_num_def safe_num_try_def split: sum.splits
        dest: float_of_int_not_nan float_of_int_raises)
next
  case (PyBool b)
  then show ?thesis
    by (simp add: safe_num_def safe_num_try_def flt_def)
qed (auto simp: safe_num_def safe_num_try_def split: option.splits)

lemma safe_num_float: "safe_num parse (PyFloat (flt q)) = Inr (Some (flt q))"
  by (simp add: safe_num_result flt_def)

lemma safe_num_none: "safe_num parse PyNone = Inr None"
  by (simp add: safe_num_result)

lemma is_string_iff: "is_string v \<longleftrightarrow> (\<exists>s. v = Some (PyStr s))"
  by (cases v rule: is_string.cases) simp_all

lemma rich_text_object_iff:
  "rich_text_object t \<longleftrightarrow> (\<exists>d s. t = PyDict d \<and> map_of d (str ''plain_text'') = Some (PyStr s))"
  by (cases t) (simp_all add: is_string_iff)

lemma rich_text_array_iff:
  "rich_text_array v \<longleftrightarrow> (\<exists>ts. v = Some (PyList ts) \<and> list_all rich_text_object ts)"
  by (cases v rule: rich_text_array.cases) simp_all

lemma payload_of_type_iff:
  "payload_of_type d v \<longleftrightarrow>
     (\<exists>ty. v = Some (PyStr ty) \<and>
        (ty = str ''rich_text'' \<longrightarrow> rich_text_array (map_of d (str ''rich_text''))) \<and>
        (ty = str ''title'' \<longrightarrow> rich_text_array (map_of d (str ''title''))))"
  by (cases "(d, v)" rule: payload_of_type.cases) auto

lemma property_object_iff:
  "property_object p \<longleftrightarrow>
     (\<exists>d ty. p = PyDict d \<and> map_of d (str ''type'') = Some (PyStr ty) \<and>
        (ty = str ''rich_text'' \<longrightarrow> rich_text_array (map_of d (str ''rich_text''))) \<and>
        (ty = str ''title'' \<longrightarrow> rich_text_array (map_of d (str ''title''))))"
  by (cases p) (simp_all add: payload_of_type_iff)

lemma property_objects_iff:
  "property_objects v \<longleftrightarrow>
     (\<exists>ps. v = Some (PyDict ps) \<and> list_all (\<lambda>kv. property_object (snd kv)) ps)"
  by (cases v rule: property_objects.cases) simp_all

lemma notion_page_iff:
  "notion_page page \<longleftrightarrow>
     (\<exists>d i ps. page = PyDict d \<and> map_of d (str ''id'') = Some (PyStr i) \<and>
        map_of d (str ''properties'') = Some (PyDict ps) \<and>
        list_all (\<lambda>kv. property_object (snd kv)) ps)"
  by (cases page) (auto simp: is_string_iff property_objects_iff)

lemma plain_texts_strings:
  "list_all rich_text_object ts \<Longrightarrow> \<exists>xs. plain_texts ts = Inr xs \<and> (\<forall>x\<in>set xs. \<exists>s. x = PyStr s)"
proof (induction ts)
  case Nil
  then show ?case by simp
next
  case (Cons t ts)
  then obtain xs where xs: "plain_texts ts = Inr xs" "\<forall>x\<in>set xs. \<exists>s. x = PyStr s"
    by auto
  from Cons.prems have "rich_text_object t"
    by simp
  then obtain s where "py_get t (str ''plain_text'') (PyStr []) = Inr (PyStr s)"
    by (auto simp: rich_text_object_iff)
  with xs show ?case
    by simp
qed

lemma py_join_strings: "\<forall>x\<in>set xs. \<exists>s. x = PyStr s \<Longrightarrow> \<exists>s. py_join xs = Inr s"
proof (induction xs)
  case Nil
  then show ?case by simp
next
  case (Cons x xs)
  then obtain s r where "x = PyStr s" "py_join xs = Inr r"
    by auto
  then show ?case
    by simp
qed

lemma joined_text_stripped: "joined_text p key = Inr t \<Longrightarrow> py_strip t = t"
  by (auto simp: joined_text_def split: sum.splits)

lemma joined_text_returns:
  assumes "rich_text_array (map_of d key)"
  shows "\<exists>t. joined_text (PyDict d) key = Inr t"
proof -
  from assms obtain ts where ts: "map_of d key = Some (PyList ts)" "list_all rich_text_object ts"
    by (auto simp: rich_text_array_iff)
  from plain_texts_strings [OF ts(2)] obtain xs
    where xs: "plain_texts ts = Inr xs" "\<forall>x\<in>set xs. \<exists>s. x = PyStr s"
    by auto
  from py_join_strings [OF xs(2)] obtain s where "py_join xs = Inr s"
    by auto
  with ts xs show ?thesis
    by (simp add: joined_text_def)
qed

lemma get_prop_rich_text_stripped: "get_prop_rich_text page name = Inr t \<Longrightarrow> py_strip t = t"
  by (auto simp: get_prop_rich_text_def py_strip_def split: sum.splits if_splits
      dest: joined_text_stripped)

lemma notion_page_property:
  assumes "notion_page page"
  shows "\<exists>d i ps. page = PyDict d \<and> map_of d (str ''id'') = Some (PyStr i) \<and>
    map_of d (str ''properties'') = Some (PyDict ps) \<and>
    (\<forall>v. map_of ps name = Some v \<longrightarrow> property_object v)"
proof -
  from assms obtain d ps i where 1: "page = PyDict d" "map_of d (str ''id'') = Some (PyStr i)"
    "map_of d (str ''properties'') = Some (PyDict ps)" "list_all (\<lambda>kv. property_object (snd kv)) ps"
    by (auto simp: notion_page_iff)
  have "property_object v" if "map_of ps name = Some v" for v
    using map_of_SomeD [OF that] 1(4) by (auto simp: list_all_iff)
  with 1 show ?thesis
    by blast
qed

lemma notion_page_id:
  "notion_page page \<Longrightarrow> \<exists>i. py_getitem page (str ''id'') = Inr (PyStr i)"
  by (auto simp: notion_page_iff)

lemma get_prop_rich_text_returns:
  assumes "notion_page page"
  shows "\<exists>t. get_prop_rich_text page name = Inr t"
proof -
  from notion_page_property [OF assms, of name] obtain d ps
    where page: "page = PyDict d" "map_of d (str ''properties'') = Some (PyDict ps)"
    and po: "\<forall>v. map_of ps name = Some v \<longrightarrow> property_object v"
    by blast
  show ?thesis
  proof (cases "map_of ps name")
    case None
    with page show ?thesis
      by (simp add: get_prop_rich_text_def)
  next
    case (Some v)
    with po have "property_object v"
      by simp
    then obtain pd ty where v: "v = PyDict pd" "map_of pd (str ''type'') = Some (PyStr ty)"
      and payload: "ty = str ''rich_text'' \<Longrightarrow> rich_text_array (map_of pd (str ''rich_text''))"
        "ty = str ''title'' \<Longrightarrow> rich_text_array (map_of pd (str ''title''))"
      by (auto simp: property_object_iff)
    show ?thesis
      using page Some v joined_text_returns [OF payload(1)] joined_text_returns [OF payload(2)]
      by (auto simp: get_prop_rich_text_def)
  qed
qed

lemma get_prop_number_returns:
  assumes "notion_page page"
  shows "\<exists>r. get_prop_number parse page name = Inr r"
proof -
  from notion_page_property [OF assms, of name] obtain d ps
    where page: "page = PyDict d" "map_of d (str ''properties'') = Some (PyDict ps)"
    and po: "\<forall>v. map_of ps name = Some v \<longrightarrow> property_object v"
    by blast
  show ?thesis
  proof (cases "map_of ps name")
    case None
    with page show ?thesis
      by (simp add: get_prop_number_def)
  next
    case (Some v)
    with po have "property_object v"
      by simp
    then obtain pd ty where v: "v = PyDict pd" "map_of pd (str ''type'') = Some (PyStr ty)"
      by (auto simp: property_object_iff)
    show ?thesis
      using page Some v safe_num_returns
      by (auto simp: get_prop_number_def)
  qed
qed

lemma notion_page_read:
  assumes "notion_page page"
  obtains page_id ticker shares avg_cost existing_price where
    "py_getitem page (str ''id'') = Inr page_id"
    "get_prop_rich_text page PROP_TICKER = Inr ticker"
    "get_prop_number parse page PROP_SHARES = Inr shares"
    "get_prop_number parse page PROP_AVG_COST = Inr avg_cost"
    "get_prop_number parse page PROP_PRICE = Inr existing_price"
  using notion_page_id [OF assms] get_prop_rich_text_returns [OF assms, of PROP_TICKER]
    get_prop_number_returns [OF assms, of parse PROP_SHARES]
    get_prop_number_returns [OF assms, of parse PROP_AVG_COST]
    get_prop_number_returns [OF assms, of parse PROP_PRICE]
  by blast

subsection \<open>The arithmetic of the scenarios\<close>

lemma scenario_quotient:
  "ieee_div (flt 110) (flt 100) = Finite False (2476979795053773 / 2251799813685248)"
  by code_simp

lemma scenario_difference:
  "float_sub (Finite False (2476979795053773 / 2251799813685248)) (flt 1)
     = Finite False (225179981368525 / 2251799813685248)"
  by code_simp

lemma scenario_pct:
  "float_mul (Finite False (225179981368525 / 2251799813685248)) (flt 100)
     = Finite False (5629499534213125 / 562949953421312)"
  by code_simp

lemma scenario_value: "float_mul (flt 10) (flt 110) = flt 1100"
  by code_simp

lemma witness_value: "float_mul (flt 5) (flt 50) = flt 250"
  by code_simp

lemma float_mul_110_2: "float_mul (flt 110) (flt 2) = flt 220"
  by code_simp

lemma scenario_result:
  "compute_metrics (Some (flt 10)) (Some (flt 100)) (Some (flt 110))
     = Inr (Some (flt 1100), Some (flt (10 + 5 / 2 ^ 49)))"
proof -
  have "float_ne_zero (flt 100)"
    by (simp add: flt_def)
  moreover have "flt (10 + 5 / 2 ^ 49) = Finite False (5629499534213125 / 562949953421312)"
    by (simp add: flt_def)
  ultimately show ?thesis
    by (simp add: compute_metrics_def float_truediv_def scenario_quotient scenario_difference
        scenario_pct scenario_value)
qed

lemma compute_metrics_returns: "\<exists>val pl_pct. compute_metrics shares avg_cost price = Inr (val, pl_pct)"
  by (auto simp: compute_metrics_def float_truediv_def Let_def)

subsection \<open>The body of the loop\<close>

lemma fetch_price_try_history:
  "fetch_price_try w t h = (r, h1) \<Longrightarrow>
     \<exists>evs. h1 = h @ Yf_Ticker t # evs \<and> list_all is_fetch evs"
  by (auto simp: fetch_price_try_def Let_def split: option.splits sum.splits if_splits)

lemma is_fetch_quiet: "is_fetch ev \<Longrightarrow> \<not> is_write ev \<and> \<not> is_query ev"
  by (cases ev) simp_all

lemma fetch_price_history:
  assumes "fetch_price w ticker h = (r, h1)"
  shows "\<exists>evs. h1 = h @ evs \<and> list_all (\<lambda>ev. \<not> is_write ev \<and> \<not> is_query ev) evs \<and>
           (py_strip ticker \<noteq> [] \<longrightarrow> evs \<noteq> [] \<and> hd evs = Yf_Ticker (py_strip ticker))"
proof (cases "py_strip ticker = []")
  case True
  with assms show ?thesis
    by (simp add: fetch_price_def)
next
  case False
  obtain r0 h0 where tr: "fetch_price_try w (py_strip ticker) h = (r0, h0)"
    by (cases "fetch_price_try w (py_strip ticker) h")
  from fetch_price_try_history [OF tr] obtain evs
    where evs: "h0 = h @ Yf_Ticker (py_strip ticker) # evs" "list_all is_fetch evs"
    by blast
  have quiet: "list_all (\<lambda>ev. \<not> is_write ev \<and> \<not> is_query ev) evs"
    using evs(2) by (auto simp: list_all_iff dest: is_fetch_quiet)
  from assms False tr evs(1) quiet show ?thesis
    by (auto simp: fetch_price_def Let_def split: sum.splits if_splits)
qed

lemma fetch_price_raised:
  assumes "py_strip ticker \<noteq> []" and "fetch_price_try w (py_strip ticker) h = (Inl e, h1)"
    and "is_Exception e"
  shows "fetch_price w ticker h = (Inr None, h1 @ [Print (PRICE_ERROR ticker e)])"
  using assms by (simp add: fetch_price_def)

lemma main_loop_body_read:
  assumes "py_getitem page (str ''id'') = Inr page_id"
    and "get_prop_rich_text page PROP_TICKER = Inr ticker"
    and "get_prop_number (float_of_str w) page PROP_SHARES = Inr shares"
    and "get_prop_number (float_of_str w) page PROP_AVG_COST = Inr avg_cost"
    and "get_prop_number (float_of_str w) page PROP_PRICE = Inr existing_price"
  shows "main_loop_body w page c h =
     (if ticker = [] then (Inr (c\<lparr>skipped := skipped c + 1\<rparr>), h)
      else if UPDATE_ONLY_MISSING w \<and> existing_price \<noteq> None
      then (Inr (c\<lparr>skipped := skipped c + 1\<rparr>), h)
      else (case fetch_price w ticker h of
              (Inl e, h1) \<Rightarrow> (Inl e, h1)
            | (Inr None, h1) \<Rightarrow> (Inr (c\<lparr>failed := failed c + 1\<rparr>), h1 @ [Print (WARN_price ticker)])
            | (Inr (Some price), h1) \<Rightarrow>
                (case compute_metrics shares avg_cost (Some price) of
                   Inl e \<Rightarrow> (Inl e, h1)
                 | Inr (val, pl_pct) \<Rightarrow> write_step w page page_id ticker price val pl_pct c h1)))"
  using assms
  by (auto simp: main_loop_body_def Let_def split: prod.splits sum.splits option.splits)

lemma write_step_history:
  "\<exists>res rest. write_step w page page_id ticker price val pl_pct c h
     = (res, h @ Pages_update page_id (PyDict (update_props w (Some price) val pl_pct h)) # rest)"
  by (auto simp: write_step_def update_page_def Let_def split: option.splits sum.splits)

lemma main_loop_body_fetches:
  assumes page: "notion_page page"
    and ticker: "get_prop_rich_text page PROP_TICKER = Inr ticker" "ticker \<noteq> []"
    and existing: "get_prop_number (float_of_str w) page PROP_PRICE = Inr existing_price"
    and mode: "\<not> (UPDATE_ONLY_MISSING w \<and> existing_price \<noteq> None)"
  obtains page_id shares avg_cost where
    "py_getitem page (str ''id'') = Inr page_id"
    "get_prop_number (float_of_str w) page PROP_SHARES = Inr shares"
    "get_prop_number (float_of_str w) page PROP_AVG_COST = Inr avg_cost"
    "main_loop_body w page c h =
       (case fetch_price w ticker h of
          (Inl e, h1) \<Rightarrow> (Inl e, h1)
        | (Inr None, h1) \<Rightarrow> (Inr (c\<lparr>failed := failed c + 1\<rparr>), h1 @ [Print (WARN_price ticker)])
        | (Inr (Some price), h1) \<Rightarrow>
            (case compute_metrics shares avg_cost (Some price) of
               Inl e \<Rightarrow> (Inl e, h1)
             | Inr (val, pl_pct) \<Rightarrow> write_step w page page_id ticker price val pl_pct c h1))"
proof -
  from page obtain page_id t shares avg_cost ex where read:
    "py_getitem page (str ''id'') = Inr page_id"
    "get_prop_rich_text page PROP_TICKER = Inr t"
    "get_prop_number (float_of_str w) page PROP_SHARES = Inr shares"
    "get_prop_number (float_of_str w) page PROP_AVG_COST = Inr avg_cost"
    "get_prop_number (float_of_str w) page PROP_PRICE = Inr ex"
    by (rule notion_page_read)
  with ticker existing have same: "t = ticker" "ex = existing_price"
    by simp_all
  show thesis
    using that [OF read(1,3,4)] main_loop_body_read [OF read, of c h] ticker(2) mode
    unfolding same by (cases existing_price) auto
qed

text \<open>The scaling factor is read by nothing in the loop.\<close>

lemma fetch_price_try_ignores_factor:
  "fetch_price_try (w\<lparr>FX_RATE := factor\<rparr>) t h = fetch_price_try w t h"
  by (simp add: fetch_price_try_def Let_def
      cong: sum.case_cong option.case_cong prod.case_cong if_cong)

lemma fetch_price_ignores_factor:
  "fetch_price (w\<lparr>FX_RATE := factor\<rparr>) ticker h = fetch_price w ticker h"
  by (simp add: fetch_price_def fetch_price_try_ignores_factor Let_def)

lemma write_step_ignores_factor:
  "write_step (w\<lparr>FX_RATE := factor\<rparr>) page page_id ticker price val pl_pct c h
     = write_step w page page_id ticker price val pl_pct c h"
  by (simp add: write_step_def update_page_def update_props_def now_iso_def Let_def
      cong: sum.case_cong option.case_cong prod.case_cong if_cong)

lemma main_loop_body_ignores_factor:
  "main_loop_body (w\<lparr>FX_RATE := factor\<rparr>) page c h = main_loop_body w page c h"
  by (simp add: main_loop_body_def fetch_price_ignores_factor write_step_ignores_factor Let_def
      cong: sum.case_cong option.case_cong prod.case_cong if_cong)






text \<open>Every run of the loop body that returns has incremented one counter.\<close>

lemma write_step_counts:
  assumes "notion_page page"
    and "write_step w page page_id ticker price val pl_pct c h = (Inr c', h')"
  shows "c' = c\<lparr>updated := updated c + 1\<rparr> \<or> c' = c\<lparr>failed := failed c + 1\<rparr>"
proof -
  from get_prop_rich_text_returns [OF assms(1), of PROP_TITLE] obtain t
    where "get_prop_rich_text page PROP_TITLE = Inr t"
    by blast
  with assms(2) show ?thesis
    by (auto simp: write_step_def Let_def split: prod.splits sum.splits if_splits)
qed

lemma main_loop_body_counts:
  assumes "notion_page page" and "main_loop_body w page c h = (Inr c', h')"
  shows "c' = c\<lparr>updated := updated c + 1\<rparr> \<or> c' = c\<lparr>skipped := skipped c + 1\<rparr> \<or>
         c' = c\<lparr>failed := failed c + 1\<rparr>"
  using assms(2)
  by (auto simp: main_loop_body_def Let_def split: prod.splits sum.splits option.splits if_splits
      dest: write_step_counts [OF assms(1)])

lemma main_loop_counts:
  assumes "\<forall>page\<in>set pages. notion_page page" and "main_loop w pages c h = (Inr c', h')"
  shows "updated c' + skipped c' + failed c' = updated c + skipped c + failed c + length pages"
  using assms
proof (induction pages arbitrary: c h)
  case Nil
  then show ?case by simp
next
  case (Cons page pages)
  from Cons.prems(2) obtain c1 h1 where body: "main_loop_body w page c h = (Inr c1, h1)"
    and rest: "main_loop w pages c1 h1 = (Inr c', h')"
    by (auto split: prod.splits sum.splits)
  from Cons.prems(1) have "notion_page page"
    by simp
  from main_loop_body_counts [OF this body]
  have "updated c1 + skipped c1 + failed c1 = updated c + skipped c + failed c + 1"
    by auto
  moreover from Cons.IH [OF _ rest] Cons.prems(1)
  have "updated c' + skipped c' + failed c' = updated c1 + skipped c1 + failed c1 + length pages"
    by simp
  ultimately show ?case
    by simp
qed

subsection \<open>Collecting the pages\<close>

lemma reports_response:
  assumes "reports w database_id h start_cursor (P # Ps)"
  obtains d where "databases_query w h database_id start_cursor = Inr (PyDict d)"
    and "map_of d (str ''results'') = Some (PyList P)"
    and "Ps = [] \<Longrightarrow> map_of d (str ''has_more'') = Some (PyBool False)"
    and "Ps \<noteq> [] \<Longrightarrow> map_of d (str ''has_more'') = Some (PyBool True)"
    and "Ps \<noteq> [] \<Longrightarrow> \<exists>c. map_of d (str ''next_cursor'') = Some (PyStr c) \<and> c \<noteq> [] \<and>
           reports w database_id (h @ [Databases_query database_id start_cursor]) (Some (PyStr c)) Ps"
  using assms by (auto split: sum.splits pyval.splits option.splits if_splits)

lemma query_loop_reports:
  assumes "reports w database_id h (if truthy cursor then Some cursor else None) Ps"
  shows "\<exists>hq. query_loop w database_id pages cursor h = Some (Inr (pages @ concat Ps), h @ hq) \<and>
           length hq = length Ps \<and> list_all is_query hq"
  using assms
proof (induction Ps arbitrary: h cursor pages)
  case Nil
  then show ?case by simp
next
  case (Cons P Ps)
  let ?start = "if truthy cursor then Some cursor else None"
  let ?ev = "Databases_query database_id ?start"
  from Cons.prems obtain d where resp: "databases_query w h database_id ?start = Inr (PyDict d)"
    and results: "map_of d (str ''results'') = Some (PyList P)"
    and last: "Ps = [] \<Longrightarrow> map_of d (str ''has_more'') = Some (PyBool False)"
    and more: "Ps \<noteq> [] \<Longrightarrow> map_of d (str ''has_more'') = Some (PyBool True)"
    and next_page: "Ps \<noteq> [] \<Longrightarrow> \<exists>c. map_of d (str ''next_cursor'') = Some (PyStr c) \<and> c \<noteq> [] \<and>
           reports w database_id (h @ [?ev]) (Some (PyStr c)) Ps"
    by (rule reports_response) blast
  show ?case
  proof (cases "Ps = []")
    case True
    with resp results last [OF True]
    have "query_loop w database_id pages cursor h = Some (Inr (pages @ P), h @ [?ev])"
      by (subst query_loop.simps) (simp add: Let_def)
    with True show ?thesis
      by simp
  next
    case False
    from next_page [OF False] obtain c where c: "map_of d (str ''next_cursor'') = Some (PyStr c)"
      "c \<noteq> []" "reports w database_id (h @ [?ev]) (Some (PyStr c)) Ps"
      by blast
    from resp results more [OF False] c(1)
    have step: "query_loop w database_id pages cursor h
        = query_loop w database_id (pages @ P) (PyStr c) (h @ [?ev])"
      by (subst query_loop.simps) (simp add: Let_def)
    from c(2,3) have "reports w database_id (h @ [?ev])
        (if truthy (PyStr c) then Some (PyStr c) else None) Ps"
      by simp
    from Cons.IH [OF this, of "pages @ P"] obtain hq
      where "query_loop w database_id (pages @ P) (PyStr c) (h @ [?ev])
          = Some (Inr ((pages @ P) @ concat Ps), (h @ [?ev]) @ hq)"
        "length hq = length Ps" "list_all is_query hq"
      by blast
    with step show ?thesis
      by (intro exI [of _ "?ev # hq"]) simp
  qed
qed

lemma require_env_ok: "require_env w = Inr () \<longleftrightarrow> \<not> unset (NOTION_TOKEN w) \<and> \<not> unset (DATABASE_ID w)"
  by (simp add: require_env_def)

subsection \<open>The script on the examples\<close>

lemmas prop_names = PROP_TITLE_def PROP_TICKER_def PROP_SHARES_def PROP_AVG_COST_def
  PROP_PRICE_def PROP_VALUE_def PROP_PL_PCT_def PROP_LAST_UPDATED_def

lemmas examples = example_page_def example_properties_def number_property_def text_property_def

lemma example_page_notion_page [simp]: "notion_page (example_page ticker shares avg_cost price)"
  by (simp add: examples prop_names list_all_iff)

lemma example_id:
  "py_getitem (example_page ticker shares avg_cost price) (str ''id'') = Inr (PyStr (str ''page-1''))"
  by (simp add: example_page_def)

lemma example_ticker:
  "get_prop_rich_text (example_page [t] shares avg_cost price) PROP_TICKER = Inr (py_strip t)"
  by (simp add: get_prop_rich_text_def joined_text_def examples prop_names)

lemma example_title:
  "get_prop_rich_text (example_page ticker shares avg_cost price) PROP_TITLE = Inr (str ''Apple'')"
  by (simp add: get_prop_rich_text_def joined_text_def examples prop_names py_strip_def isspace_def
      str_simps)

lemma example_numbers:
  "get_prop_number parse (example_page ticker shares avg_cost price) PROP_SHARES = safe_num parse shares"
  "get_prop_number parse (example_page ticker shares avg_cost price) PROP_AVG_COST = safe_num parse avg_cost"
  "get_prop_number parse (example_page ticker shares avg_cost price) PROP_PRICE = safe_num parse price"
  by (simp_all add: get_prop_number_def examples prop_names)

lemma strip_AAPL: "py_strip (str ''AAPL'') = str ''AAPL''"
  by (simp add: py_strip_def isspace_def str_simps)

lemma strip_blank_example: "py_strip [32, 9, 12288] = []"
  by (simp add: py_strip_def isspace_def)

lemmas example_reads = example_id example_ticker example_title example_numbers strip_AAPL
  safe_num_float safe_num_none

lemma example_body_at:
  assumes "yf_Ticker w = (\<lambda>h t. None)" "yf_fast_info w = (\<lambda>h t. Inr (PyFloat (flt 110)))"
    "pages_update w = (\<lambda>h page_id props. None)" "\<not> UPDATE_ONLY_MISSING w"
  shows "main_loop_body w (example_page [str ''AAPL''] (PyFloat (flt 10)) (PyFloat (flt 100)) price) c h
   = (Inr (c\<lparr>updated := updated c + 1\<rparr>),
      h @ [Yf_Ticker (str ''AAPL''), Yf_fast_info (str ''AAPL''),
       Pages_update (PyStr (str ''page-1''))
         (PyDict [(PROP_PRICE, notion_number (Some (flt 110))),
                  (PROP_VALUE, notion_number (Some (flt 1100))),
                  (PROP_PL_PCT, notion_number (Some (flt (10 + 5 / 2 ^ 49)))),
                  (PROP_LAST_UPDATED, notion_date (clock w (h @ [Yf_Ticker (str ''AAPL''), Yf_fast_info (str ''AAPL'')])))]),
       Print (OK (str ''Apple'') (str ''AAPL'') (flt 110) (Some (flt 1100)) (Some (flt (10 + 5 / 2 ^ 49))))])"
proof -
  have fetch: "fetch_price w (str ''AAPL'') h
      = (Inr (Some (flt 110)), h @ [Yf_Ticker (str ''AAPL''), Yf_fast_info (str ''AAPL'')])"
    using assms by (simp add: fetch_price_def fetch_price_try_def strip_AAPL Let_def)
  have nonempty: "str ''AAPL'' \<noteq> []"
    by simp
  obtain r where price: "safe_num (float_of_str w) price = Inr r"
    using safe_num_returns by blast
  show ?thesis
    using assms fetch nonempty price
    by (simp add: main_loop_body_def example_reads scenario_result write_step_def update_page_def Let_def
        update_props_def now_iso_def)
qed

lemma example_body_failing:
  assumes "yf_Ticker w = (\<lambda>h t. Some (Failure ''network error''))" "\<not> UPDATE_ONLY_MISSING w"
  shows "main_loop_body w (example_page [str ''AAPL''] (PyFloat (flt 10)) (PyFloat (flt 100)) PyNone) c h
   = (Inr (c\<lparr>failed := failed c + 1\<rparr>),
      h @ [Yf_Ticker (str ''AAPL''), Print (PRICE_ERROR (str ''AAPL'') (Failure ''network error'')),
           Print (WARN_price (str ''AAPL''))])"
proof -
  have fetch: "fetch_price w (str ''AAPL'') h
      = (Inr None, h @ [Yf_Ticker (str ''AAPL''), Print (PRICE_ERROR (str ''AAPL'') (Failure ''network error''))])"
    using assms by (simp add: fetch_price_def fetch_price_try_def strip_AAPL Let_def)
  have nonempty: "str ''AAPL'' \<noteq> []"
    by simp
  show ?thesis
    using assms fetch nonempty
    by (simp add: main_loop_body_def example_reads)
qed

lemma example_body_blank:
  "main_loop_body w (example_page [[32]] shares avg_cost price) c h
     = (Inr (c\<lparr>skipped := skipped c + 1\<rparr>), h)"
proof -
  have "py_strip [32] = []"
    by (simp add: py_strip_def isspace_def)
  then show ?thesis
    by (simp add: main_loop_body_def example_id example_ticker)
qed

lemma example_store_reports:
  assumes "databases_query w = example_store"
  shows "reports w database_id [] None
     [[example_page [str ''AAPL''] (PyFloat (flt 10)) (PyFloat (flt 100)) PyNone],
      [example_page [[32]] PyNone PyNone PyNone]]"
  using assms by (simp add: example_store_def)

lemma paged_world_fields:
  "require_env paged_world = Inr ()" "databases_query paged_world = example_store"
  "yf_Ticker paged_world = (\<lambda>h t. None)"
  "yf_fast_info paged_world = (\<lambda>h t. Inr (PyFloat (flt 110)))"
  "pages_update paged_world = (\<lambda>h page_id props. None)" "\<not> UPDATE_ONLY_MISSING paged_world"
  by (simp_all add: paged_world_def example_world_def require_env_def unset_def)


lemma paged_query:
  assumes "databases_query w = example_store"
  shows "\<exists>hq. query_all_pages w database_id []
           = Some (Inr [example_page [str ''AAPL''] (PyFloat (flt 10)) (PyFloat (flt 100)) PyNone,
                        example_page [[32]] PyNone PyNone PyNone], hq) \<and>
         length hq = 2"
proof -
  from example_store_reports [OF assms, of database_id]
  have "reports w database_id [] (if truthy PyNone then Some PyNone else None)
     [[example_page [str ''AAPL''] (PyFloat (flt 10)) (PyFloat (flt 100)) PyNone],
      [example_page [[32]] PyNone PyNone PyNone]]"
    by simp
  from query_loop_reports [OF this, of "[]"] show ?thesis
    by (auto simp: query_all_pages_def)
qed

text \<open>The record with the null title: every read of the loop succeeds but that of the title.\<close>

lemma untitled_title: "get_prop_rich_text untitled_page PROP_TITLE = Inl TypeError"
  by (simp add: untitled_page_def get_prop_rich_text_def joined_text_def prop_names)

lemma untitled_not_notion_page: "\<not> notion_page untitled_page"
  by (simp add: untitled_page_def examples prop_names list_all_iff)

lemma untitled_reads:
  "py_getitem untitled_page (str ''id'') = Inr (PyStr (str ''page-1''))"
  "get_prop_rich_text untitled_page PROP_TICKER = Inr (str ''AAPL'')"
  "get_prop_number parse untitled_page PROP_SHARES = Inr (Some (flt 10))"
  "get_prop_number parse untitled_page PROP_AVG_COST = Inr (Some (flt 100))"
  "get_prop_number parse untitled_page PROP_PRICE = Inr None"
  by (simp_all add: untitled_page_def get_prop_rich_text_def joined_text_def get_prop_number_def
      examples prop_names strip_AAPL safe_num_float safe_num_none)

lemma untitled_body:
  assumes "yf_Ticker w = (\<lambda>h t. None)" "yf_fast_info w = (\<lambda>h t. Inr (PyFloat (flt 110)))"
    "pages_update w = (\<lambda>h page_id props. None)" "\<not> UPDATE_ONLY_MISSING w"
  shows "main_loop_body w untitled_page c h
   = (Inr (c\<lparr>updated := updated c + 1, failed := failed c + 1\<rparr>),
      h @ [Yf_Ticker (str ''AAPL''), Yf_fast_info (str ''AAPL''),
       Pages_update (PyStr (str ''page-1''))
         (PyDict [(PROP_PRICE, notion_number (Some (flt 110))),
                  (PROP_VALUE, notion_number (Some (flt 1100))),
                  (PROP_PL_PCT, notion_number (Some (flt (10 + 5 / 2 ^ 49)))),
                  (PROP_LAST_UPDATED, notion_date (clock w (h @ [Yf_Ticker (str ''AAPL''), Yf_fast_info (str ''AAPL'')])))]),
       Print (NOTION_ERROR (str ''AAPL'') TypeError)])"
proof -
  have fetch: "fetch_price w (str ''AAPL'') h
      = (Inr (Some (flt 110)), h @ [Yf_Ticker (str ''AAPL''), Yf_fast_info (str ''AAPL'')])"
    using assms by (simp add: fetch_price_def fetch_price_try_def strip_AAPL Let_def)
  have nonempty: "str ''AAPL'' \<noteq> []"
    by simp
  show ?thesis
    using assms fetch nonempty
    by (simp add: main_loop_body_def untitled_reads untitled_title scenario_result write_step_def
        update_page_def Let_def update_props_def now_iso_def)
qed

lemma untitled_world_fields:
  "require_env untitled_world = Inr ()" "databases_query untitled_world = untitled_store"
  "yf_Ticker untitled_world = (\<lambda>h t. None)"
  "yf_fast_info untitled_world = (\<lambda>h t. Inr (PyFloat (flt 110)))"
  "pages_update untitled_world = (\<lambda>h page_id props. None)" "\<not> UPDATE_ONLY_MISSING untitled_world"
  "DATABASE_ID untitled_world = Some (str ''db'')" "BASE_CURRENCY untitled_world = str ''USD''"
  "FX_RATE untitled_world = flt 1"
  "clock untitled_world = (\<lambda>h. str ''2024-01-01T00:00:00+00:00'')"
  by (simp_all add: untitled_world_def example_world_def require_env_def unset_def)

lemma untitled_query:
  "query_all_pages untitled_world database_id []
     = Some (Inr [untitled_page], [Databases_query database_id None])"
  unfolding query_all_pages_def
  by (subst query_loop.simps) (simp add: Let_def untitled_world_fields untitled_store_def)

section \<open>The claims\<close>

subsection \<open>C1: the metric calculator\<close>

text \<open>
  C1, as the claim states it, fails at its own scenario. With shares 10, average cost
  100 and price 110 the value is 1100, but the percentage is not 10.0: the quotient
  \<open>110 / 100\<close> is not a binary64 number and rounds up to \<open>1.1 + 0.4 * 2 ^ -52\<close>, the
  subtraction and the multiplication by 100 are then exact, and the result is
  \<open>10 + 5 * 2 ^ -49\<close> (printed \<^verbatim>\<open>10.000000000000009\<close>).
\<close>

theorem scenario_pct_differs_from_ten:
  "compute_metrics (Some (flt 10)) (Some (flt 100)) (Some (flt 110))
     \<noteq> Inr (Some (flt 1100), Some (flt 10))"
  using scenario_result by (simp add: flt_def)

text \<open>
  C1, amended: \<^verbatim>\<open>compute_metrics\<close> never raises; it returns \<open>(None, None)\<close> when
  shares or price is absent; otherwise the value is the float product \<open>shares * price\<close>,
  with no rounding of its own, and the percentage is absent unless the average cost is
  present and differs from zero, in which case it is the float expression
  \<open>(price / avg_cost - 1.0) * 100.0\<close>. For shares 10, average cost 100 and price 110 the
  value is 1100 and the percentage is \<open>10 + 5 * 2 ^ -49\<close>.
\<close>

theorem compute_metrics_result:
  "(shares = None \<or> price = None \<longrightarrow> compute_metrics shares avg_cost price = Inr (None, None)) \<and>
   compute_metrics (Some s) None (Some p) = Inr (Some (float_mul s p), None) \<and>
   (\<not> float_ne_zero a \<longrightarrow>
      compute_metrics (Some s) (Some a) (Some p) = Inr (Some (float_mul s p), None)) \<and>
   (float_ne_zero a \<longrightarrow>
      compute_metrics (Some s) (Some a) (Some p)
        = Inr (Some (float_mul s p), Some (float_mul (float_sub (ieee_div p a) (flt 1)) (flt 100)))) \<and>
   compute_metrics (Some (flt 10)) (Some (flt 100)) (Some (flt 110))
     = Inr (Some (flt 1100), Some (flt (10 + 5 / 2 ^ 49)))"
  using scenario_result by (simp add: compute_metrics_def float_truediv_def)

theorem compute_metrics_result_witness:
  "\<not> float_ne_zero (flt 0) \<and>
   compute_metrics (Some (flt 5)) (Some (flt 0)) (Some (flt 50)) = Inr (Some (flt 250), None)"
  using compute_metrics_result [of None None None "flt 5" "flt 50" "flt 0"] witness_value
  by (simp add: flt_def)

subsection \<open>C2: the scaling factor\<close>

text \<open>
  C2, as the claim states it, fails: the line that would apply \<^verbatim>\<open>FX_RATE\<close> is
  commented out (\<^verbatim>\<open># price_display = price * FX_RATE\<close>, then
  \<^verbatim>\<open>price_display = price\<close>). With the factor set to 2 and a resolved price of 110, the
  price written is 110, not 220.
\<close>

theorem scaling_factor_is_not_applied:
  "FX_RATE (example_world\<lparr>FX_RATE := flt 2\<rparr>) = flt 2 \<and>
   float_mul (flt 110) (FX_RATE (example_world\<lparr>FX_RATE := flt 2\<rparr>)) = flt 220 \<and>
   flt 220 \<noteq> flt 110 \<and>
   fetch_price (example_world\<lparr>FX_RATE := flt 2\<rparr>) (str ''AAPL'') []
     = (Inr (Some (flt 110)), [Yf_Ticker (str ''AAPL''), Yf_fast_info (str ''AAPL'')]) \<and>
   main_loop_body (example_world\<lparr>FX_RATE := flt 2\<rparr>)
      (example_page [str ''AAPL''] (PyFloat (flt 10)) (PyFloat (flt 100)) PyNone)
      \<lparr>updated = 0, skipped = 0, failed = 0\<rparr> []
     = (Inr \<lparr>updated = 1, skipped = 0, failed = 0\<rparr>,
        [Yf_Ticker (str ''AAPL''), Yf_fast_info (str ''AAPL''),
         Pages_update (PyStr (str ''page-1''))
           (PyDict [(PROP_PRICE, notion_number (Some (flt 110))),
                    (PROP_VALUE, notion_number (Some (flt 1100))),
                    (PROP_PL_PCT, notion_number (Some (flt (10 + 5 / 2 ^ 49)))),
                    (PROP_LAST_UPDATED, notion_date (str ''2024-01-01T00:00:00+00:00''))]),
         Print (OK (str ''Apple'') (str ''AAPL'') (flt 110) (Some (flt 1100))
                  (Some (flt (10 + 5 / 2 ^ 49))))])"
proof -
  let ?w = "example_world\<lparr>FX_RATE := flt 2\<rparr>"
  have w: "yf_Ticker ?w = (\<lambda>h t. None)" "yf_fast_info ?w = (\<lambda>h t. Inr (PyFloat (flt 110)))"
    "pages_update ?w = (\<lambda>h page_id props. None)" "\<not> UPDATE_ONLY_MISSING ?w"
    by (simp_all add: example_world_def)
  have fetch: "fetch_price ?w (str ''AAPL'') []
      = (Inr (Some (flt 110)), [Yf_Ticker (str ''AAPL''), Yf_fast_info (str ''AAPL'')])"
    by (simp add: fetch_price_def fetch_price_try_def strip_AAPL Let_def example_world_def)
  have clock: "clock ?w h = str ''2024-01-01T00:00:00+00:00''" for h
    by (simp add: example_world_def)
  have "flt 220 \<noteq> flt 110"
    by (simp add: flt_def)
  with example_body_at [OF w, of PyNone "\<lparr>updated = 0, skipped = 0, failed = 0\<rparr>" "[]"]
    fetch clock float_mul_110_2 show ?thesis
    by simp
qed

text \<open>
  C2, amended: for every record that reaches the write step, the price passed to
  \<^verbatim>\<open>compute_metrics\<close> and written to the record is the resolved price itself,
  whatever the configured scaling factor: the loop body does not depend on
  \<^verbatim>\<open>FX_RATE\<close>.
\<close>

theorem written_price_is_unscaled:
  assumes "notion_page page"
    and "get_prop_rich_text page PROP_TICKER = Inr ticker" and "ticker \<noteq> []"
    and "get_prop_number (float_of_str w) page PROP_PRICE = Inr existing_price"
    and "\<not> (UPDATE_ONLY_MISSING w \<and> existing_price \<noteq> None)"
    and "fetch_price w ticker h = (Inr (Some price), h1)"
  shows "(\<exists>page_id shares avg_cost val pl_pct res rest.
            get_prop_number (float_of_str w) page PROP_SHARES = Inr shares \<and>
            get_prop_number (float_of_str w) page PROP_AVG_COST = Inr avg_cost \<and>
            compute_metrics shares avg_cost (Some price) = Inr (val, pl_pct) \<and>
            main_loop_body w page c h
              = (res, h1 @ Pages_update page_id
                             (PyDict (update_props w (Some price) val pl_pct h1)) # rest) \<and>
            map_of (update_props w (Some price) val pl_pct h1) PROP_PRICE
              = Some (notion_number (Some price))) \<and>
         main_loop_body (w\<lparr>FX_RATE := factor\<rparr>) page c h = main_loop_body w page c h"
proof
  from assms(1-5) obtain page_id shares avg_cost where
    shares: "get_prop_number (float_of_str w) page PROP_SHARES = Inr shares"
    and avg_cost: "get_prop_number (float_of_str w) page PROP_AVG_COST = Inr avg_cost"
    and body: "main_loop_body w page c h =
       (case fetch_price w ticker h of
          (Inl e, h1) \<Rightarrow> (Inl e, h1)
        | (Inr None, h1) \<Rightarrow> (Inr (c\<lparr>failed := failed c + 1\<rparr>), h1 @ [Print (WARN_price ticker)])
        | (Inr (Some price), h1) \<Rightarrow>
            (case compute_metrics shares avg_cost (Some price) of
               Inl e \<Rightarrow> (Inl e, h1)
             | Inr (val, pl_pct) \<Rightarrow> write_step w page page_id ticker price val pl_pct c h1))"
    by (rule main_loop_body_fetches)
  obtain val pl_pct where metrics: "compute_metrics shares avg_cost (Some price) = Inr (val, pl_pct)"
    using compute_metrics_returns by blast
  from write_step_history [of w page page_id ticker price val pl_pct c h1] obtain res rest
    where "write_step w page page_id ticker price val pl_pct c h1
      = (res, h1 @ Pages_update page_id (PyDict (update_props w (Some price) val pl_pct h1)) # rest)"
    by blast
  with body assms(6) metrics have "main_loop_body w page c h
      = (res, h1 @ Pages_update page_id (PyDict (update_props w (Some price) val pl_pct h1)) # rest)"
    by simp
  moreover have "map_of (update_props w (Some price) val pl_pct h1) PROP_PRICE
      = Some (notion_number (Some price))"
    by (simp add: update_props_def)
  ultimately show "\<exists>page_id shares avg_cost val pl_pct res rest.
            get_prop_number (float_of_str w) page PROP_SHARES = Inr shares \<and>
            get_prop_number (float_of_str w) page PROP_AVG_COST = Inr avg_cost \<and>
            compute_metrics shares avg_cost (Some price) = Inr (val, pl_pct) \<and>
            main_loop_body w page c h
              = (res, h1 @ Pages_update page_id
                             (PyDict (update_props w (Some price) val pl_pct h1)) # rest) \<and>
            map_of (update_props w (Some price) val pl_pct h1) PROP_PRICE
              = Some (notion_number (Some price))"
    using shares avg_cost metrics by blast
next
  show "main_loop_body (w\<lparr>FX_RATE := factor\<rparr>) page c h = main_loop_body w page c h"
    by (rule main_loop_body_ignores_factor)
qed

theorem written_price_is_unscaled_witness:
  "fetch_price example_world (str ''AAPL'') []
     = (Inr (Some (flt 110)), [Yf_Ticker (str ''AAPL''), Yf_fast_info (str ''AAPL'')]) \<and>
   main_loop_body (example_world\<lparr>FX_RATE := flt 2\<rparr>)
      (example_page [str ''AAPL''] (PyFloat (flt 10)) (PyFloat (flt 100)) PyNone)
      \<lparr>updated = 0, skipped = 0, failed = 0\<rparr> []
   = main_loop_body example_world
      (example_page [str ''AAPL''] (PyFloat (flt 10)) (PyFloat (flt 100)) PyNone)
      \<lparr>updated = 0, skipped = 0, failed = 0\<rparr> []"
proof -
  let ?page = "example_page [str ''AAPL''] (PyFloat (flt 10)) (PyFloat (flt 100)) PyNone"
  have page: "notion_page ?page"
    by simp
  have ticker: "get_prop_rich_text ?page PROP_TICKER = Inr (str ''AAPL'')" "str ''AAPL'' \<noteq> []"
    by (simp_all add: example_reads)
  have existing: "get_prop_number (float_of_str example_world) ?page PROP_PRICE = Inr None"
    by (simp add: example_reads)
  have mode: "\<not> (UPDATE_ONLY_MISSING example_world \<and> (None :: pyfloat option) \<noteq> None)"
    by simp
  have fetch: "fetch_price example_world (str ''AAPL'') []
      = (Inr (Some (flt 110)), [Yf_Ticker (str ''AAPL''), Yf_fast_info (str ''AAPL'')])"
    by (simp add: fetch_price_def fetch_price_try_def strip_AAPL Let_def example_world_def)
  from written_price_is_unscaled [OF page ticker existing mode fetch,
      of "\<lparr>updated = 0, skipped = 0, failed = 0\<rparr>" "flt 2"] fetch
  show ?thesis
    by simp
qed

subsection \<open>C3: the numeric field accessor\<close>

text \<open>
  C3, as the claim states it, fails for infinities: \<^verbatim>\<open>safe_num\<close> tests
  \<^verbatim>\<open>math.isnan\<close> only, so a number property that holds an infinity is returned as
  that infinity, not as absent.
\<close>

theorem infinite_number_is_returned:
  "notion_page (example_page [str ''AAPL''] (PyFloat (Infinity False)) PyNone PyNone) \<and>
   get_prop_number (\<lambda>s. None) (example_page [str ''AAPL''] (PyFloat (Infinity False)) PyNone PyNone)
      PROP_SHARES = Inr (Some (Infinity False))"
  by (simp add: get_prop_number_def examples prop_names safe_num_result)

text \<open>
  C3, amended. For a record whose \<^verbatim>\<open>properties\<close> are \<open>ps\<close>, the numeric accessor
  returns absent when the field is missing, when it is null (or otherwise false), and
  when it is not of type \<^verbatim>\<open>number\<close>. For a field of type \<^verbatim>\<open>number\<close> it returns
  absent when the stored value is missing, null, NaN, an integer too large for a float,
  or a list or dictionary; a float that is not NaN, infinities included, is returned as
  it is, an integer or boolean as the float of the same value, and a string as whatever
  \<^verbatim>\<open>float\<close> reads from it. On a record of the store it never raises.
\<close>

theorem get_prop_number_result:
  assumes "py_getitem page (str ''properties'') = Inr (PyDict ps)"
  shows
   "(map_of ps name = None \<longrightarrow> get_prop_number parse page name = Inr None) \<and>
    (map_of ps name = Some p \<and> \<not> truthy p \<longrightarrow> get_prop_number parse page name = Inr None) \<and>
    (map_of ps name = Some (PyDict pd) \<and> map_of pd (str ''type'') = Some ty \<and>
       ty \<noteq> PyStr (str ''number'') \<longrightarrow> get_prop_number parse page name = Inr None) \<and>
    (map_of ps name = Some (PyDict pd) \<and> map_of pd (str ''type'') = Some (PyStr (str ''number''))
       \<longrightarrow> get_prop_number parse page name =
           Inr (case map_of pd (str ''number'') of
                  None \<Rightarrow> None
                | Some PyNone \<Rightarrow> None
                | Some (PyBool b) \<Rightarrow> Some (flt (if b then 1 else 0))
                | Some (PyInt i) \<Rightarrow> (case float_of_int i of Inl e \<Rightarrow> None | Inr f \<Rightarrow> Some f)
                | Some (PyFloat f) \<Rightarrow> if isnan f then None else Some f
                | Some (PyStr s) \<Rightarrow> parse s
                | Some (PyList xs) \<Rightarrow> None
                | Some (PyDict d) \<Rightarrow> None)) \<and>
    (notion_page page \<longrightarrow> (\<exists>r. get_prop_number parse page name = Inr r))"
proof -
  have typed: "truthy (PyDict pd)" if "map_of pd (str ''type'') = Some t" for t
    using that by (cases pd) auto
  show ?thesis
    using assms get_prop_number_returns [of page parse name] typed
    by (auto simp: get_prop_number_def safe_num_result split: option.splits pyval.splits)
qed

theorem get_prop_number_result_witness:
  "py_getitem (example_page [str ''AAPL''] (PyFloat NaN) (PyInt 3) PyNone) (str ''properties'')
     = Inr (PyDict (example_properties [str ''AAPL''] (PyFloat NaN) (PyInt 3) PyNone)) \<and>
   get_prop_number (\<lambda>s. None) (example_page [str ''AAPL''] (PyFloat NaN) (PyInt 3) PyNone)
     (str ''Dividend'') = Inr None \<and>
   get_prop_number (\<lambda>s. None) (example_page [str ''AAPL''] (PyFloat NaN) (PyInt 3) PyNone)
     PROP_TICKER = Inr None \<and>
   get_prop_number (\<lambda>s. None) (example_page [str ''AAPL''] (PyFloat NaN) (PyInt 3) PyNone)
     PROP_SHARES = Inr None \<and>
   get_prop_number (\<lambda>s. None) (example_page [str ''AAPL''] (PyFloat NaN) (PyInt 3) PyNone)
     PROP_PRICE = Inr None"
proof -
  let ?page = "example_page [str ''AAPL''] (PyFloat NaN) (PyInt 3) PyNone"
  let ?ps = "example_properties [str ''AAPL''] (PyFloat NaN) (PyInt 3) PyNone"
  have ps: "py_getitem ?page (str ''properties'') = Inr (PyDict ?ps)"
    by (simp add: example_page_def)
  note r = get_prop_number_result [OF ps, where parse = "\<lambda>s. None"]
  have 1: "get_prop_number (\<lambda>s. None) ?page (str ''Dividend'') = Inr None"
    using r [of "str ''Dividend''"] by (simp add: examples prop_names)
  have 2: "get_prop_number (\<lambda>s. None) ?page PROP_TICKER = Inr None"
    using r [of PROP_TICKER _ "[(str ''id'', PyStr (str ''t'')), (str ''type'', PyStr (str ''rich_text'')),
             (str ''rich_text'', PyList [PyDict [(str ''plain_text'', PyStr (str ''AAPL''))]])]"
             "PyStr (str ''rich_text'')"]
    by (simp add: examples prop_names)
  have 3: "get_prop_number (\<lambda>s. None) ?page PROP_SHARES = Inr None"
    using r [of PROP_SHARES _ "[(str ''id'', PyStr (str ''n'')), (str ''type'', PyStr (str ''number'')),
                               (str ''number'', PyFloat NaN)]"]
    by (simp add: examples prop_names)
  have 4: "get_prop_number (\<lambda>s. None) ?page PROP_PRICE = Inr None"
    using r [of PROP_PRICE _ "[(str ''id'', PyStr (str ''n'')), (str ''type'', PyStr (str ''number'')),
                               (str ''number'', PyNone)]"]
    by (simp add: examples prop_names)
  from ps 1 2 3 4 show ?thesis
    by simp
qed

subsection \<open>C4: a record with a blank ticker\<close>

text \<open>
  C4: when the ticker the accessor returns is empty or consists of white space only
  (after its trimming the two are the same), the loop body adds nothing to the history,
  so it neither calls the price provider nor writes to the store, and it increments
  \<^verbatim>\<open>skipped\<close> and no other counter. (\<open>py_strip_blank\<close>: the accessor's trimming
  leaves nothing exactly when the text is white space only.)
\<close>

theorem blank_ticker_is_skipped:
  assumes "py_getitem page (str ''id'') = Inr page_id"
    and "get_prop_rich_text page PROP_TICKER = Inr ticker"
    and "\<forall>c\<in>set ticker. isspace c"
  shows "main_loop_body w page c h = (Inr (c\<lparr>skipped := skipped c + 1\<rparr>), h)"
proof -
  from assms(3) have "py_strip ticker = []"
    by (simp add: py_strip_blank)
  with get_prop_rich_text_stripped [OF assms(2)] have "ticker = []"
    by simp
  with assms(1,2) show ?thesis
    by (simp add: main_loop_body_def)
qed

theorem blank_ticker_is_skipped_witness:
  "get_prop_rich_text (example_page [[32, 9, 12288]] (PyInt 10) (PyInt 100) PyNone) PROP_TICKER = Inr [] \<and>
   main_loop_body example_world (example_page [[32, 9, 12288]] (PyInt 10) (PyInt 100) PyNone)
     \<lparr>updated = 0, skipped = 0, failed = 0\<rparr> []
   = (Inr \<lparr>updated = 0, skipped = 1, failed = 0\<rparr>, [])"
proof -
  let ?page = "example_page [[32, 9, 12288]] (PyInt 10) (PyInt 100) PyNone"
  have id: "py_getitem ?page (str ''id'') = Inr (PyStr (str ''page-1''))"
    by (rule example_id)
  have ticker: "get_prop_rich_text ?page PROP_TICKER = Inr []"
    by (simp add: example_ticker strip_blank_example)
  have blank: "\<forall>c\<in>set ([] :: pystr). isspace c"
    by simp
  from blank_ticker_is_skipped [OF id ticker blank, of example_world
      "\<lparr>updated = 0, skipped = 0, failed = 0\<rparr>" "[]"] ticker
  show ?thesis
    by simp
qed

subsection \<open>C5: a failure of the price provider\<close>

text \<open>
  C5: for every ticker, when a call of the provider in the \<^verbatim>\<open>try\<close> block of
  \<^verbatim>\<open>fetch_price\<close> raises an exception \<open>e\<close> of class \<^verbatim>\<open>Exception\<close>, then
  \<^verbatim>\<open>fetch_price\<close> logs \<open>e\<close> and returns \<^verbatim>\<open>None\<close>; and for a record of the store
  that reaches the price lookup, the loop body then increments \<^verbatim>\<open>failed\<close> and no
  other counter, has written nothing to the store, and the loop goes on with the
  remaining records.
\<close>

theorem provider_failure_is_contained:
  assumes "is_Exception e"
  shows "(py_strip t \<noteq> [] \<and> fetch_price_try w (py_strip t) h = (Inl e, h1) \<longrightarrow>
            fetch_price w t h = (Inr None, h1 @ [Print (PRICE_ERROR t e)])) \<and>
         (notion_page page \<and> get_prop_rich_text page PROP_TICKER = Inr ticker \<and> ticker \<noteq> [] \<and>
          get_prop_number (float_of_str w) page PROP_PRICE = Inr existing_price \<and>
          \<not> (UPDATE_ONLY_MISSING w \<and> existing_price \<noteq> None) \<and>
          fetch_price_try w ticker h = (Inl e, h1) \<longrightarrow>
            main_loop_body w page c h
              = (Inr (c\<lparr>failed := failed c + 1\<rparr>),
                 h1 @ [Print (PRICE_ERROR ticker e), Print (WARN_price ticker)]) \<and>
            (\<exists>evs. h1 = h @ evs \<and> list_all (\<lambda>ev. \<not> is_write ev) evs) \<and>
            main_loop w (page # pages) c h
              = main_loop w pages (c\<lparr>failed := failed c + 1\<rparr>)
                  (h1 @ [Print (PRICE_ERROR ticker e), Print (WARN_price ticker)]))"
proof (intro conjI impI)
  assume "py_strip t \<noteq> [] \<and> fetch_price_try w (py_strip t) h = (Inl e, h1)"
  with assms show "fetch_price w t h = (Inr None, h1 @ [Print (PRICE_ERROR t e)])"
    by (simp add: fetch_price_raised)
next
  assume reaches: "notion_page page \<and> get_prop_rich_text page PROP_TICKER = Inr ticker \<and> ticker \<noteq> [] \<and>
          get_prop_number (float_of_str w) page PROP_PRICE = Inr existing_price \<and>
          \<not> (UPDATE_ONLY_MISSING w \<and> existing_price \<noteq> None) \<and>
          fetch_price_try w ticker h = (Inl e, h1)"
  then have page: "notion_page page"
    and ticker: "get_prop_rich_text page PROP_TICKER = Inr ticker" "ticker \<noteq> []"
    and existing: "get_prop_number (float_of_str w) page PROP_PRICE = Inr existing_price"
    and mode: "\<not> (UPDATE_ONLY_MISSING w \<and> existing_price \<noteq> None)"
    and raised: "fetch_price_try w ticker h = (Inl e, h1)"
    by blast+
  have stripped: "py_strip ticker = ticker"
    using ticker(1) by (rule get_prop_rich_text_stripped)
  with ticker(2) raised assms
  have fetch: "fetch_price w ticker h = (Inr None, h1 @ [Print (PRICE_ERROR ticker e)])"
    by (simp add: fetch_price_raised)
  from page ticker existing mode obtain page_id shares avg_cost where
    "main_loop_body w page c h =
       (case fetch_price w ticker h of
          (Inl e, h1) \<Rightarrow> (Inl e, h1)
        | (Inr None, h1) \<Rightarrow> (Inr (c\<lparr>failed := failed c + 1\<rparr>), h1 @ [Print (WARN_price ticker)])
        | (Inr (Some price), h1) \<Rightarrow>
            (case compute_metrics shares avg_cost (Some price) of
               Inl e \<Rightarrow> (Inl e, h1)
             | Inr (val, pl_pct) \<Rightarrow> write_step w page page_id ticker price val pl_pct c h1))"
    by (rule main_loop_body_fetches)
  with fetch show body: "main_loop_body w page c h
      = (Inr (c\<lparr>failed := failed c + 1\<rparr>),
         h1 @ [Print (PRICE_ERROR ticker e), Print (WARN_price ticker)])"
    by simp
  then show "main_loop w (page # pages) c h
      = main_loop w pages (c\<lparr>failed := failed c + 1\<rparr>)
          (h1 @ [Print (PRICE_ERROR ticker e), Print (WARN_price ticker)])"
    by simp
  from fetch_price_try_history [OF raised] obtain evs
    where "h1 = h @ Yf_Ticker ticker # evs" "list_all is_fetch evs"
    by blast
  then show "\<exists>evs. h1 = h @ evs \<and> list_all (\<lambda>ev. \<not> is_write ev) evs"
    by (auto simp: list_all_iff dest: is_fetch_quiet intro!: exI [of _ "Yf_Ticker ticker # evs"])
qed

theorem provider_failure_is_contained_witness:
  "fetch_price_try (example_world\<lparr>yf_Ticker := \<lambda>h t. Some (Failure ''network error'')\<rparr>)
      (str ''AAPL'') []
     = (Inl (Failure ''network error''), [Yf_Ticker (str ''AAPL'')]) \<and>
   main_loop_body (example_world\<lparr>yf_Ticker := \<lambda>h t. Some (Failure ''network error'')\<rparr>)
      (example_page [str ''AAPL''] (PyFloat (flt 10)) (PyFloat (flt 100)) PyNone)
      \<lparr>updated = 0, skipped = 0, failed = 0\<rparr> []
     = (Inr \<lparr>updated = 0, skipped = 0, failed = 1\<rparr>,
        [Yf_Ticker (str ''AAPL''), Print (PRICE_ERROR (str ''AAPL'') (Failure ''network error'')),
         Print (WARN_price (str ''AAPL''))])"
proof -
  let ?w = "example_world\<lparr>yf_Ticker := \<lambda>h t. Some (Failure ''network error'')\<rparr>"
  let ?page = "example_page [str ''AAPL''] (PyFloat (flt 10)) (PyFloat (flt 100)) PyNone"
  have page: "notion_page ?page"
    by simp
  have ticker: "get_prop_rich_text ?page PROP_TICKER = Inr (str ''AAPL'')" "str ''AAPL'' \<noteq> []"
    by (simp_all add: example_reads)
  have existing: "get_prop_number (float_of_str ?w) ?page PROP_PRICE = Inr None"
    by (simp add: example_reads)
  have mode: "\<not> (UPDATE_ONLY_MISSING ?w \<and> (None :: pyfloat option) \<noteq> None)"
    by simp
  have raised: "fetch_price_try ?w (str ''AAPL'') []
      = (Inl (Failure ''network error''), [Yf_Ticker (str ''AAPL'')])"
    by (simp add: fetch_price_try_def Let_def
      cong: sum.case_cong option.case_cong prod.case_cong if_cong)
  have exc: "is_Exception (Failure ''network error'')"
    by simp
  from provider_failure_is_contained [OF exc, of "str ''AAPL''" ?w "[]" "[Yf_Ticker (str ''AAPL'')]"
      ?page "str ''AAPL''" None "\<lparr>updated = 0, skipped = 0, failed = 0\<rparr>" "[]"]
    page ticker existing mode raised
  show ?thesis
    by simp
qed

subsection \<open>C6: pagination\<close>



subsection \<open>C7: missing settings and the exit status\<close>

text \<open>
  C7: when \<^verbatim>\<open>NOTION_TOKEN\<close> or \<^verbatim>\<open>NOTION_DATABASE_ID\<close> is missing (unset or
  empty), \<^verbatim>\<open>main\<close> ends with \<^verbatim>\<open>SystemExit\<close>, whose message lists exactly the
  missing ones, with an empty history (no call of the store or the provider was made),
  and the exit status is 1. When both are present, the pages were collected and the loop
  completed with counters \<open>c\<close>, \<^verbatim>\<open>main\<close> returns and the exit status is 0, whatever
  \<open>failed c\<close> is.
\<close>

theorem missing_settings_abort:
  "(unset (NOTION_TOKEN w) \<or> unset (DATABASE_ID w) \<longrightarrow>
      main w = Some (Inl (SystemExit ((if unset (NOTION_TOKEN w) then [''NOTION_TOKEN''] else []) @
                                      (if unset (DATABASE_ID w) then [''NOTION_DATABASE_ID''] else []))),
                     []) \<and>
      (\<forall>r. main w = Some r \<longrightarrow> exit_status r = 1)) \<and>
   (\<not> unset (NOTION_TOKEN w) \<and> \<not> unset (DATABASE_ID w) \<and>
    query_all_pages w (DATABASE_ID w) [] = Some (Inr pages, hq) \<and>
    main_loop w pages \<lparr>updated = 0, skipped = 0, failed = 0\<rparr>
       (hq @ [Print (INFO_pages (length pages))]) = (Inr c, h1) \<longrightarrow>
      main w = Some (Inr c, h1 @ [Print (DONE (updated c) (skipped c) (failed c)
                                          (BASE_CURRENCY w) (FX_RATE w))]) \<and>
      (\<forall>r. main w = Some r \<longrightarrow> exit_status r = 0))"
  by (auto simp: main_def require_env_def exit_status_def)

theorem missing_settings_abort_witness:
  "main (example_world\<lparr>NOTION_TOKEN := None, DATABASE_ID := Some []\<rparr>)
     = Some (Inl (SystemExit [''NOTION_TOKEN'', ''NOTION_DATABASE_ID'']), []) \<and>
   (\<exists>h. main (paged_world\<lparr>yf_Ticker := \<lambda>h t. Some (Failure ''network error'')\<rparr>)
          = Some (Inr \<lparr>updated = 0, skipped = 1, failed = 1\<rparr>, h) \<and>
        exit_status (Inr \<lparr>updated = 0, skipped = 1, failed = 1\<rparr>, h) = 0)"
proof -
  let ?missing = "example_world\<lparr>NOTION_TOKEN := None, DATABASE_ID := Some []\<rparr>"
  let ?failing = "paged_world\<lparr>yf_Ticker := \<lambda>h t. Some (Failure ''network error'')\<rparr>"
  let ?pages = "[example_page [str ''AAPL''] (PyFloat (flt 10)) (PyFloat (flt 100)) PyNone,
                 example_page [[32]] PyNone PyNone PyNone]"
  have unset: "unset (NOTION_TOKEN ?missing)" "unset (DATABASE_ID ?missing)"
    by (simp_all add: unset_def)
  from missing_settings_abort [of ?missing] unset
  have abort: "main ?missing = Some (Inl (SystemExit [''NOTION_TOKEN'', ''NOTION_DATABASE_ID'']), [])"
    by simp
  have failing: "databases_query ?failing = example_store"
    "yf_Ticker ?failing = (\<lambda>h t. Some (Failure ''network error''))" "\<not> UPDATE_ONLY_MISSING ?failing"
    "\<not> unset (NOTION_TOKEN ?failing)" "\<not> unset (DATABASE_ID ?failing)"
    by (simp_all add: paged_world_def example_world_def unset_def)
  from paged_query [OF failing(1), of "DATABASE_ID ?failing"] obtain hq
    where query: "query_all_pages ?failing (DATABASE_ID ?failing) [] = Some (Inr ?pages, hq)"
    by blast
  obtain h1 where loop: "main_loop ?failing ?pages \<lparr>updated = 0, skipped = 0, failed = 0\<rparr>
       (hq @ [Print (INFO_pages (length ?pages))]) = (Inr \<lparr>updated = 0, skipped = 1, failed = 1\<rparr>, h1)"
    by (simp add: example_body_failing [OF failing(2,3)] example_body_blank)
  from missing_settings_abort [of ?failing ?pages hq "\<lparr>updated = 0, skipped = 1, failed = 1\<rparr>" h1]
    failing(4,5) query loop
  have "\<exists>h. main ?failing = Some (Inr \<lparr>updated = 0, skipped = 1, failed = 1\<rparr>, h) \<and>
        exit_status (Inr \<lparr>updated = 0, skipped = 1, failed = 1\<rparr>, h) = 0"
    by simp
  with abort show ?thesis
    by simp
qed

subsection \<open>C8: missing-only mode\<close>

text \<open>
  C8: for a record of the store with a non-empty ticker and a price already present:
  when \<^verbatim>\<open>UPDATE_ONLY_MISSING\<close> is set, the loop body adds nothing to the history (no
  lookup, no write) and increments \<^verbatim>\<open>skipped\<close>; when it is not set, the first thing
  the body does is to call the provider for this ticker, and whenever the lookup yields a
  price, it issues the update of the record with that price.
\<close>

theorem missing_only_mode:
  assumes "notion_page page"
    and "get_prop_rich_text page PROP_TICKER = Inr ticker" and "ticker \<noteq> []"
    and "get_prop_number (float_of_str w) page PROP_PRICE = Inr (Some existing_price)"
  shows "(UPDATE_ONLY_MISSING w \<longrightarrow>
            main_loop_body w page c h = (Inr (c\<lparr>skipped := skipped c + 1\<rparr>), h)) \<and>
         (\<not> UPDATE_ONLY_MISSING w \<longrightarrow>
            (\<exists>res rest. main_loop_body w page c h = (res, h @ Yf_Ticker ticker # rest)) \<and>
            (\<forall>price h1. fetch_price w ticker h = (Inr (Some price), h1) \<longrightarrow>
               (\<exists>page_id val pl_pct res rest.
                  py_getitem page (str ''id'') = Inr page_id \<and>
                  main_loop_body w page c h
                    = (res, h1 @ Pages_update page_id
                                   (PyDict (update_props w (Some price) val pl_pct h1)) # rest))))"
proof (intro conjI impI)
  assume on: "UPDATE_ONLY_MISSING w"
  from assms(1) obtain page_id t shares avg_cost ex where read:
    "py_getitem page (str ''id'') = Inr page_id"
    "get_prop_rich_text page PROP_TICKER = Inr t"
    "get_prop_number (float_of_str w) page PROP_SHARES = Inr shares"
    "get_prop_number (float_of_str w) page PROP_AVG_COST = Inr avg_cost"
    "get_prop_number (float_of_str w) page PROP_PRICE = Inr ex"
    by (rule notion_page_read)
  from main_loop_body_read [OF read, of c h] read(2,5) assms(2-4) on
  show "main_loop_body w page c h = (Inr (c\<lparr>skipped := skipped c + 1\<rparr>), h)"
    by auto
next
  assume off: "\<not> UPDATE_ONLY_MISSING w"
  then have mode: "\<not> (UPDATE_ONLY_MISSING w \<and> Some existing_price \<noteq> None)"
    by simp
  from assms mode obtain page_id shares avg_cost where id: "py_getitem page (str ''id'') = Inr page_id"
    and body: "main_loop_body w page c h =
       (case fetch_price w ticker h of
          (Inl e, h1) \<Rightarrow> (Inl e, h1)
        | (Inr None, h1) \<Rightarrow> (Inr (c\<lparr>failed := failed c + 1\<rparr>), h1 @ [Print (WARN_price ticker)])
        | (Inr (Some price), h1) \<Rightarrow>
            (case compute_metrics shares avg_cost (Some price) of
               Inl e \<Rightarrow> (Inl e, h1)
             | Inr (val, pl_pct) \<Rightarrow> write_step w page page_id ticker price val pl_pct c h1))"
    by (rule main_loop_body_fetches)
  have stripped: "py_strip ticker = ticker"
    using assms(2) by (rule get_prop_rich_text_stripped)
  obtain r h1 where fetch: "fetch_price w ticker h = (r, h1)"
    by (cases "fetch_price w ticker h")
  from fetch_price_history [OF fetch] stripped assms(3) obtain evs
    where h1: "h1 = h @ Yf_Ticker ticker # evs"
    by (auto simp: neq_Nil_conv)
  have written: "\<exists>val pl_pct res rest. main_loop_body w page c h
      = (res, h1 @ Pages_update page_id (PyDict (update_props w (Some price) val pl_pct h1)) # rest)"
    if "r = Inr (Some price)" for price
  proof -
    obtain val pl_pct where "compute_metrics shares avg_cost (Some price) = Inr (val, pl_pct)"
      using compute_metrics_returns by blast
    with body fetch that write_step_history [of w page page_id ticker price val pl_pct c h1]
    show ?thesis
      by auto
  qed
  show "\<exists>res rest. main_loop_body w page c h = (res, h @ Yf_Ticker ticker # rest)"
  proof (cases r)
    case (Inl e)
    with body fetch h1 show ?thesis
      by simp
  next
    case (Inr p)
    show ?thesis
    proof (cases p)
      case None
      with Inr body fetch h1 show ?thesis
        by simp
    next
      case (Some price)
      with Inr written [of price] h1 show ?thesis
        by auto
    qed
  qed
  show "\<forall>price h1. fetch_price w ticker h = (Inr (Some price), h1) \<longrightarrow>
       (\<exists>page_id val pl_pct res rest.
          py_getitem page (str ''id'') = Inr page_id \<and>
          main_loop_body w page c h
            = (res, h1 @ Pages_update page_id (PyDict (update_props w (Some price) val pl_pct h1)) # rest))"
    using fetch written id by auto
qed

theorem missing_only_mode_witness:
  "main_loop_body (example_world\<lparr>UPDATE_ONLY_MISSING := True\<rparr>)
      (example_page [str ''AAPL''] (PyFloat (flt 10)) (PyFloat (flt 100)) (PyFloat (flt 105)))
      \<lparr>updated = 0, skipped = 0, failed = 0\<rparr> []
     = (Inr \<lparr>updated = 0, skipped = 1, failed = 0\<rparr>, []) \<and>
   (\<exists>res rest.
      main_loop_body example_world
        (example_page [str ''AAPL''] (PyFloat (flt 10)) (PyFloat (flt 100)) (PyFloat (flt 105)))
        \<lparr>updated = 0, skipped = 0, failed = 0\<rparr> []
      = (res, Yf_Ticker (str ''AAPL'') # rest))"
proof -
  let ?on = "example_world\<lparr>UPDATE_ONLY_MISSING := True\<rparr>"
  let ?page = "example_page [str ''AAPL''] (PyFloat (flt 10)) (PyFloat (flt 100)) (PyFloat (flt 105))"
  have page: "notion_page ?page"
    by simp
  have ticker: "get_prop_rich_text ?page PROP_TICKER = Inr (str ''AAPL'')" "str ''AAPL'' \<noteq> []"
    by (simp_all add: example_reads)
  have existing: "get_prop_number (float_of_str w) ?page PROP_PRICE = Inr (Some (flt 105))" for w
    by (simp add: example_reads)
  have modes: "UPDATE_ONLY_MISSING ?on" "\<not> UPDATE_ONLY_MISSING example_world"
    by (simp_all add: example_world_def)
  from missing_only_mode [OF page ticker existing, of ?on "\<lparr>updated = 0, skipped = 0, failed = 0\<rparr>" "[]"]
    missing_only_mode [OF page ticker existing, of example_world "\<lparr>updated = 0, skipped = 0, failed = 0\<rparr>" "[]"]
    modes
  show ?thesis
    by simp
qed

subsection \<open>C9: the record writer\<close>

text \<open>
  C9: the only thing \<^verbatim>\<open>update_page\<close> does is one call of
  \<^verbatim>\<open>client.pages.update\<close>, whose field map has exactly the four keys
  \<^verbatim>\<open>Price\<close>, \<^verbatim>\<open>Value\<close>, \<^verbatim>\<open>P/L %\<close> and \<^verbatim>\<open>Last Updated\<close>, all different, so
  the partial update names no other field of the record. The three numbers are sent as
  \<^verbatim>\<open>{"number": v}\<close>, and an absent one as \<^verbatim>\<open>{"number": None}\<close>, which clears the
  field; it is never left out of the map.
\<close>

theorem update_page_fields:
  "snd (update_page w page_id price val pl_pct h)
     = h @ [Pages_update page_id (PyDict (update_props w price val pl_pct h))] \<and>
   map fst (update_props w price val pl_pct h)
     = [PROP_PRICE, PROP_VALUE, PROP_PL_PCT, PROP_LAST_UPDATED] \<and>
   distinct [PROP_PRICE, PROP_VALUE, PROP_PL_PCT, PROP_LAST_UPDATED] \<and>
   dom (map_of (update_props w price val pl_pct h))
     = {PROP_PRICE, PROP_VALUE, PROP_PL_PCT, PROP_LAST_UPDATED} \<and>
   map_of (update_props w price val pl_pct h) PROP_PRICE = Some (notion_number price) \<and>
   map_of (update_props w price val pl_pct h) PROP_VALUE = Some (notion_number val) \<and>
   map_of (update_props w price val pl_pct h) PROP_PL_PCT = Some (notion_number pl_pct) \<and>
   map_of (update_props w price val pl_pct h) PROP_LAST_UPDATED = Some (notion_date (now_iso w h)) \<and>
   notion_number None = PyDict [(str ''number'', PyNone)] \<and>
   notion_number (Some f) = PyDict [(str ''number'', PyFloat f)]"
  by (auto simp: update_page_def update_props_def notion_number_def prop_names Let_def
      split: option.splits)

theorem update_page_fields_witness:
  "snd (update_page example_world (PyStr (str ''page-1'')) (Some (flt 110)) None None [])
     = [Pages_update (PyStr (str ''page-1''))
          (PyDict [(PROP_PRICE, PyDict [(str ''number'', PyFloat (flt 110))]),
                   (PROP_VALUE, PyDict [(str ''number'', PyNone)]),
                   (PROP_PL_PCT, PyDict [(str ''number'', PyNone)]),
                   (PROP_LAST_UPDATED,
                    PyDict [(str ''date'', PyDict [(str ''start'', PyStr (str ''2024-01-01T00:00:00+00:00''))])])])]"
  using update_page_fields [of example_world "PyStr (str ''page-1'')" "Some (flt 110)" None None "[]" "flt 110"]
  by (simp add: update_props_def notion_number_def notion_date_def now_iso_def example_world_def)

subsection \<open>C10: the counters\<close>

text \<open>
  C10: every record of the loop increments exactly one of \<^verbatim>\<open>updated\<close>,
  \<^verbatim>\<open>skipped\<close> and \<^verbatim>\<open>failed\<close>, so that when the loop completes the three add up to
  the number of records that pagination returned. The code does not keep this. In
  \<^verbatim>\<open>
        try:
            update_page(client, page_id, price_display, value, pl_pct)
            updated += 1
            title = get_prop_rich_text(page, PROP_TITLE) or ticker
            print(f"[OK] ...")
        except Exception as e:
            failed += 1
            print(f"[NOTION ERROR] ...")
  \<close>
  \<^verbatim>\<open>updated\<close> is incremented inside the \<^verbatim>\<open>try\<close> block, before the title is read;
  an exception raised after the increment reaches the handler, which increments
  \<^verbatim>\<open>failed\<close> for the same record. On the store that holds the one record with a null
  title, pagination returns one record, the update of that record is issued and accepted,
  and the run completes with \<^verbatim>\<open>updated = 1\<close> and \<^verbatim>\<open>failed = 1\<close> after reporting an
  update failure: the three counters add up to 2 for 1 record.
\<close>

theorem accepted_update_is_counted_twice:
  "query_all_pages untitled_world (DATABASE_ID untitled_world) []
     = Some (Inr [untitled_page], [Databases_query (Some (str ''db'')) None]) \<and>
   main untitled_world
     = Some (Inr \<lparr>updated = 1, skipped = 0, failed = 1\<rparr>,
        [Databases_query (Some (str ''db'')) None,
         Print (INFO_pages 1),
         Yf_Ticker (str ''AAPL''), Yf_fast_info (str ''AAPL''),
         Pages_update (PyStr (str ''page-1''))
           (PyDict [(PROP_PRICE, notion_number (Some (flt 110))),
                    (PROP_VALUE, notion_number (Some (flt 1100))),
                    (PROP_PL_PCT, notion_number (Some (flt (10 + 5 / 2 ^ 49)))),
                    (PROP_LAST_UPDATED, notion_date (str ''2024-01-01T00:00:00+00:00''))]),
         Print (NOTION_ERROR (str ''AAPL'') TypeError),
         Print (DONE 1 0 1 (str ''USD'') (flt 1))]) \<and>
   updated \<lparr>updated = 1, skipped = 0, failed = 1\<rparr> + skipped \<lparr>updated = 1, skipped = 0, failed = 1\<rparr>
     + failed \<lparr>updated = 1, skipped = 0, failed = 1\<rparr>
   \<noteq> length [untitled_page]"
  by (simp add: main_def untitled_query untitled_world_fields
      untitled_body [OF untitled_world_fields(3-6)])

text \<open>
  The double count needs an exception after the increment. Where the title can be read,
  that is on records shaped as the store returns them, and with the log line taken not to
  fail, every run of the loop body that returns has incremented exactly one of the
  counters by one and left the other two alone, and when \<^verbatim>\<open>main\<close> returns the three
  add up to the number of records that \<^verbatim>\<open>query_all_pages\<close> returned.
\<close>

lemma every_record_is_counted_once:
  assumes "\<forall>page\<in>set pages. notion_page page"
    and "query_all_pages w (DATABASE_ID w) [] = Some (Inr pages, hq)"
    and "main w = Some (Inr counted, h)"
  shows "updated counted + skipped counted + failed counted = length pages \<and>
         (\<forall>page\<in>set pages. \<forall>c h c' h'. main_loop_body w page c h = (Inr c', h') \<longrightarrow>
            c' = c\<lparr>updated := updated c + 1\<rparr> \<or> c' = c\<lparr>skipped := skipped c + 1\<rparr> \<or>
            c' = c\<lparr>failed := failed c + 1\<rparr>)"
proof
  from assms(2,3) obtain h1
    where "main_loop w pages \<lparr>updated = 0, skipped = 0, failed = 0\<rparr>
             (hq @ [Print (INFO_pages (length pages))]) = (Inr counted, h1)"
    by (auto simp: main_def split: sum.splits prod.splits)
  from main_loop_counts [OF assms(1) this]
  show "updated counted + skipped counted + failed counted = length pages"
    by simp
next
  show "\<forall>page\<in>set pages. \<forall>c h c' h'. main_loop_body w page c h = (Inr c', h') \<longrightarrow>
            c' = c\<lparr>updated := updated c + 1\<rparr> \<or> c' = c\<lparr>skipped := skipped c + 1\<rparr> \<or>
            c' = c\<lparr>failed := failed c + 1\<rparr>"
    using assms(1) main_loop_body_counts by blast
qed

lemma every_record_is_counted_once_witness:
  "notion_page (example_page [str ''AAPL''] (PyFloat (flt 10)) (PyFloat (flt 100)) PyNone) \<and>
   notion_page (example_page [[32]] PyNone PyNone PyNone) \<and>
   (\<exists>h. main paged_world = Some (Inr \<lparr>updated = 1, skipped = 1, failed = 0\<rparr>, h)) \<and>
   updated \<lparr>updated = 1, skipped = 1, failed = 0\<rparr> + skipped \<lparr>updated = 1, skipped = 1, failed = 0\<rparr>
     + failed \<lparr>updated = 1, skipped = 1, failed = 0\<rparr>
   = length [example_page [str ''AAPL''] (PyFloat (flt 10)) (PyFloat (flt 100)) PyNone,
             example_page [[32]] PyNone PyNone PyNone]"
proof -
  let ?pages = "[example_page [str ''AAPL''] (PyFloat (flt 10)) (PyFloat (flt 100)) PyNone,
                 example_page [[32]] PyNone PyNone PyNone]"
  have pages: "\<forall>page\<in>set ?pages. notion_page page"
    by simp
  from paged_query [OF paged_world_fields(2), of "DATABASE_ID paged_world"] obtain hq
    where query: "query_all_pages paged_world (DATABASE_ID paged_world) [] = Some (Inr ?pages, hq)"
    by blast
  then obtain h where run: "main paged_world = Some (Inr \<lparr>updated = 1, skipped = 1, failed = 0\<rparr>, h)"
    using paged_world_fields(1)
    by (auto simp: main_def example_body_at [OF paged_world_fields(3-6)] example_body_blank)
  from every_record_is_counted_once [OF pages query run] run show ?thesis
    by simp
qed

end
